theory Spec2Isabelle
  imports Main Complex_Main "HOL-Library.Sublist"
begin

section \<open>StreamStudio: a shallow embedding of the controller and its modules\<close>

text \<open>
  The JavaScript classes \<open>Chat\<close>, \<open>AI\<close>, \<open>Transcript\<close>, \<open>Streamer\<close>, \<open>Recorder\<close> and the
  controller \<open>StreamStudio\<close> are embedded as records with one HOL function per method.
  A method that mutates \<open>this\<close> takes the object and returns the updated object.

  Conventions of the embedding:
  \<^item> What a method reads from its surroundings (the clock, \<open>Math.random\<close>, whether
    \<open>localStorage.setItem\<close> succeeds, the answer to \<open>confirm\<close>, the outcome of a media
    request) is a field of the record \<open>env\<close> passed to the method. One \<open>env\<close> is read
    per call, so two clock reads inside one call see the same instant.
  \<^item> A \<open>throw\<close> is the left injection of a sum and carries the object as it was when the
    exception left the method, since JavaScript keeps the mutations made before a throw.
  \<^item> An \<open>async\<close> method runs to completion: the embedding gives the state once the
    returned promise has settled, with no other callback interleaved.
  \<^item> The document is assumed to hold every element the code looks up. A write to the
    document is kept only where a claim reads it back (alerts, notifications, status).
  \<^item> A record field carries a module prefix where two classes use the same property name.
\<close>

subsection \<open>Strings\<close>

text \<open>
  A string is a list of code units below 256, read as Latin-1. \<open>String.prototype.trim\<close>
  strips the white space and line terminators of the language; below 256 these are TAB,
  LF, VT, FF, CR, SPACE and the no-break space U+00A0.
\<close>

definition is_ws :: "char \<Rightarrow> bool" where
  "is_ws c = (c \<in> {CHR 0x09, CHR 0x0A, CHR 0x0B, CHR 0x0C, CHR 0x0D, CHR '' '', CHR 0xA0})"

definition trim :: "string \<Rightarrow> string" where
  "trim s = rev (dropWhile is_ws (rev (dropWhile is_ws s)))"

text \<open>
  \<open>String.prototype.toLowerCase\<close> on Latin-1 text: the letters A to Z and the accented
  capitals U+00C0 to U+00DE, the multiplication sign U+00D7 apart, move up by 32.
\<close>

definition lower_char :: "char \<Rightarrow> char" where
  "lower_char c =
     (let n = (of_char c :: nat)
      in if (65 \<le> n \<and> n \<le> 90) \<or> (192 \<le> n \<and> n \<le> 222 \<and> n \<noteq> 215)
         then char_of (n + 32) else c)"

definition toLowerCase :: "string \<Rightarrow> string" where
  "toLowerCase s = map lower_char s"

text \<open>\<open>s.includes(p)\<close>: \<open>p\<close> occurs in \<open>s\<close> as a contiguous run.\<close>

fun str_includes :: "string \<Rightarrow> string \<Rightarrow> bool" where
  "str_includes [] p = (p = [])"
| "str_includes (c # s) p = (prefix p (c # s) \<or> str_includes s p)"

text \<open>\<open>Number.prototype.toString\<close> of a non-negative integer, in decimal.\<close>

definition digit_char :: "nat \<Rightarrow> char" where
  "digit_char d = char_of (48 + d)"

fun toString_nat :: "nat \<Rightarrow> string" where
  "toString_nat n = (if n < 10 then [digit_char n] else toString_nat (n div 10) @ [digit_char (n mod 10)])"

declare toString_nat.simps [simp del]

definition toString_int :: "int \<Rightarrow> string" where
  "toString_int i = (if i < 0 then CHR ''-'' # toString_nat (nat (- i)) else toString_nat (nat i))"

text \<open>\<open>s.padStart(n, "0")\<close>.\<close>

definition padStart :: "nat \<Rightarrow> string \<Rightarrow> string" where
  "padStart n s = replicate (n - length s) CHR ''0'' @ s"

subsection \<open>The surroundings of a call\<close>

record env =
  now :: int                \<comment> \<open>\<open>Date.now()\<close>, milliseconds since the epoch\<close>
  randomId :: string        \<comment> \<open>\<open>Math.random().toString(36).substr(2, 9)\<close>\<close>
  storageOk :: bool         \<comment> \<open>\<open>localStorage.setItem\<close> returns rather than throws\<close>
  confirmOk :: bool         \<comment> \<open>the answer to \<open>confirm(...)\<close>\<close>
  mediaOk :: bool           \<comment> \<open>\<open>new MediaRecorder\<close> and \<open>mediaRecorder.stop\<close> return rather than throw\<close>
  mediaStartOk :: bool      \<comment> \<open>\<open>mediaRecorder.start\<close> returns rather than throws\<close>
  acquire :: "string + nat" \<comment> \<open>\<open>getUserMedia\<close> / \<open>getDisplayMedia\<close>: an error, or the stream's handle\<close>

subsection \<open>Chat (\<open>chat.js\<close>)\<close>

record message =
  msg_id :: string
  msg_text :: string
  msg_timestamp :: int
  msg_user :: string
  msg_type :: string
  isModerator :: bool

text \<open>
  \<open>chatStore\<close> is the value under the key \<open>streamstudio-chat-history\<close>: \<open>None\<close> when the key
  is absent or does not parse, otherwise the stored array.
\<close>

record chat =
  messages :: "message list"
  isVisible :: bool
  maxMessages :: nat
  autoScroll :: bool
  moderators :: "string set"
  blockedUsers :: "string set"
  chatStore :: "message list option"
  pendingResponses :: nat   \<comment> \<open>timers armed by \<open>simulateMessageResponse\<close>, not yet fired\<close>

definition new_Chat :: chat where
  "new_Chat = \<lparr>messages = [], isVisible = True, maxMessages = 100, autoScroll = True,
     moderators = {}, blockedUsers = {}, chatStore = None, pendingResponses = 0\<rparr>"

text \<open>\<open>xs.slice(-n)\<close>: the last \<open>n\<close> entries, all of them when there are fewer.\<close>

definition slice_last :: "nat \<Rightarrow> 'a list \<Rightarrow> 'a list" where
  "slice_last n xs = drop (length xs - n) xs"

definition saveChatHistory :: "env \<Rightarrow> chat \<Rightarrow> chat" where
  "saveChatHistory e c =
     (if storageOk e then c\<lparr>chatStore := Some (slice_last 50 (messages c))\<rparr> else c)"

definition addMessage :: "env \<Rightarrow> message \<Rightarrow> chat \<Rightarrow> chat" where
  "addMessage e m c =
     (let c1 = c\<lparr>messages := messages c @ [m]\<rparr>;
          c2 = (if length (messages c1) > maxMessages c1
                then c1\<lparr>messages := tl (messages c1)\<rparr> else c1)
      in saveChatHistory e c2)"

text \<open>A run of appends, each with the surroundings of its own call.\<close>

definition addMessages :: "(env \<times> message) list \<Rightarrow> chat \<Rightarrow> chat" where
  "addMessages ems c = foldl (\<lambda>c' (e, m). addMessage e m c') c ems"

definition generateMessageId :: "env \<Rightarrow> string" where
  "generateMessageId e = ''msg_'' @ toString_int (now e) @ ''_'' @ randomId e"

definition sendMessage :: "env \<Rightarrow> string \<Rightarrow> chat \<Rightarrow> chat" where
  "sendMessage e txt c =
     (if trim txt = [] then c
      else let m = \<lparr>msg_id = generateMessageId e, msg_text = trim txt, msg_timestamp = now e,
                     msg_user = ''You'', msg_type = ''user'', isModerator = False\<rparr>;
               c1 = addMessage e m c
           in c1\<lparr>pendingResponses := pendingResponses c1 + 1\<rparr>)"

text \<open>
  The timer callback armed by \<open>simulateMessageResponse\<close>. The reply text and the viewer's
  number are drawn with \<open>Math.random\<close>; they are arguments here.
\<close>

definition responses :: "string list" where
  "responses = [''Great stream!'', ''Love the content!'', ''Can you explain that again?'',
     ''Awesome!'', ''Thanks for the stream!'', ''This is helpful!'', ''Keep it up!'',
     ''Amazing work!'']"

definition viewerResponse :: "env \<Rightarrow> nat \<Rightarrow> nat \<Rightarrow> chat \<Rightarrow> chat" where
  "viewerResponse e k v c =
     (let m = \<lparr>msg_id = generateMessageId e, msg_text = responses ! (k mod length responses),
                msg_timestamp = now e, msg_user = ''Viewer'' @ toString_nat (v mod 1000),
                msg_type = ''viewer'', isModerator = False\<rparr>;
          c1 = addMessage e m c
      in c1\<lparr>pendingResponses := pendingResponses c1 - 1\<rparr>)"

definition toggleVisibility :: "chat \<Rightarrow> chat" where
  "toggleVisibility c = c\<lparr>isVisible := \<not> isVisible c\<rparr>"

definition clearChat :: "env \<Rightarrow> chat \<Rightarrow> chat" where
  "clearChat e c = (if confirmOk e then saveChatHistory e (c\<lparr>messages := []\<rparr>) else c)"

definition addSystemMessage :: "env \<Rightarrow> string \<Rightarrow> chat \<Rightarrow> chat" where
  "addSystemMessage e txt c =
     addMessage e \<lparr>msg_id = generateMessageId e, msg_text = txt, msg_timestamp = now e,
       msg_user = ''System'', msg_type = ''system'', isModerator = False\<rparr> c"

definition addModeratorMessage :: "env \<Rightarrow> string \<Rightarrow> string \<Rightarrow> chat \<Rightarrow> chat" where
  "addModeratorMessage e txt moderatorName c =
     addMessage e \<lparr>msg_id = generateMessageId e, msg_text = txt, msg_timestamp = now e,
       msg_user = moderatorName, msg_type = ''moderator'', isModerator = True\<rparr> c"

definition blockUser :: "env \<Rightarrow> string \<Rightarrow> chat \<Rightarrow> chat" where
  "blockUser e username c =
     addSystemMessage e (''User '' @ username @ '' has been blocked.'')
       (c\<lparr>blockedUsers := insert username (blockedUsers c)\<rparr>)"

definition unblockUser :: "env \<Rightarrow> string \<Rightarrow> chat \<Rightarrow> chat" where
  "unblockUser e username c =
     addSystemMessage e (''User '' @ username @ '' has been unblocked.'')
       (c\<lparr>blockedUsers := blockedUsers c - {username}\<rparr>)"

definition addModerator :: "env \<Rightarrow> string \<Rightarrow> chat \<Rightarrow> chat" where
  "addModerator e username c =
     addSystemMessage e (username @ '' is now a moderator.'')
       (c\<lparr>moderators := insert username (moderators c)\<rparr>)"

definition removeModerator :: "env \<Rightarrow> string \<Rightarrow> chat \<Rightarrow> chat" where
  "removeModerator e username c =
     addSystemMessage e (username @ '' is no longer a moderator.'')
       (c\<lparr>moderators := moderators c - {username}\<rparr>)"

definition loadChatHistory :: "chat \<Rightarrow> chat" where
  "loadChatHistory c = (case chatStore c of None \<Rightarrow> c | Some history \<Rightarrow> c\<lparr>messages := history\<rparr>)"

definition Chat_init :: "chat \<Rightarrow> chat" where
  "Chat_init c = loadChatHistory c"

definition Chat_cleanup :: "env \<Rightarrow> chat \<Rightarrow> chat" where
  "Chat_cleanup e c = (saveChatHistory e c)\<lparr>messages := []\<rparr>"

subsection \<open>Speech recognition events\<close>

text \<open>
  A \<open>SpeechRecognitionEvent\<close>. Every result carries at least one alternative; the code
  reads only the first, \<open>results[i][0]\<close>, a transcript with its confidence. A confidence is
  an IEEE double; the comparisons of the code agree with those of the rational number the
  double denotes, and \<open>NaN\<close> is left out.
\<close>

record recog_result =
  isFinal :: bool
  alt_transcript :: string
  alt_confidence :: rat

record recog_event =
  resultIndex :: nat
  results :: "recog_result list"

text \<open>
  The engine behind \<open>recognition\<close>: \<open>start()\<close> throws \<open>InvalidStateError\<close> when the
  engine has been started and has not ended yet.
\<close>

definition recognition_start :: "bool \<Rightarrow> string + bool" where
  "recognition_start started = (if started then Inl ''InvalidStateError'' else Inr True)"

subsection \<open>AI (\<open>ai.js\<close>)\<close>

text \<open>
  A JavaScript value as far as the code tells values apart. \<open>Obj k\<close> is an array or an
  object, and \<open>k\<close> the string it converts to when it is used as a property key: the array
  \<open>["toggleMute"]\<close> is \<open>Obj ''toggleMute''\<close>.
\<close>

datatype jsval = Undefined | Null | Bool bool | Num rat | Str string | Obj string

fun truthy :: "jsval \<Rightarrow> bool" where
  "truthy Undefined = False"
| "truthy Null = False"
| "truthy (Bool b) = b"
| "truthy (Num n) = (n \<noteq> 0)"
| "truthy (Str s) = (s \<noteq> [])"
| "truthy (Obj k) = True"

text \<open>
  The names every object literal inherits from \<open>Object.prototype\<close>. Looking one of them
  up in an object literal gives a function (for \<open>__proto__\<close> the prototype itself), which
  is truthy and has none of the properties the code goes on to read.
\<close>

definition objectPrototypeNames :: "string list" where
  "objectPrototypeNames = [''constructor'', ''hasOwnProperty'', ''isPrototypeOf'',
     ''propertyIsEnumerable'', ''toLocaleString'', ''toString'', ''valueOf'', ''__proto__'',
     ''__defineGetter__'', ''__defineSetter__'', ''__lookupGetter__'', ''__lookupSetter__'']"

text \<open>
  A value used as a property key. \<open>undefined\<close>, \<open>null\<close>, the booleans and the numbers
  convert to keys (\<open>"undefined"\<close>, \<open>"true"\<close>, \<open>"0.5"\<close>, ...) that are no name of the
  tables of this module nor of \<open>Object.prototype\<close>; these are \<open>None\<close>.
\<close>

fun propertyKey :: "jsval \<Rightarrow> string option" where
  "propertyKey (Str s) = Some s"
| "propertyKey (Obj k) = Some k"
| "propertyKey Undefined = None"
| "propertyKey Null = None"
| "propertyKey (Bool b) = None"
| "propertyKey (Num n) = None"

text \<open>
  What \<open>showCommandFeedback\<close> shows: a text, or, when the action names a property
  inherited from \<open>Object.prototype\<close>, that property as the engine prints it.
\<close>

datatype shown = Text string | Inherited string

text \<open>The double written \<open>0.7\<close> in the source, as the rational number it is.\<close>

definition double_0_7 :: rat where
  "double_0_7 = 3152519739159347 / 4503599627370496"

record ai_settings =
  apiKey :: string
  language :: string
  sensitivity :: rat
  commands :: "(string \<times> string) list"   \<comment> \<open>in the order of \<open>Object.entries\<close>\<close>

text \<open>What \<open>findMatchingCommand\<close> or \<open>sendToAI\<close> hands to \<open>executeCommand\<close>.\<close>

record command_data =
  cd_action :: jsval
  cd_confidence :: jsval
  cd_type :: string

text \<open>An entry of \<open>commandHistory\<close>.\<close>

record log_entry =
  log_action :: jsval
  originalTranscript :: string
  log_confidence :: jsval
  log_type :: string
  log_timestamp :: int

text \<open>
  \<open>dispatched\<close> lists the names of the events given to \<open>document.dispatchEvent\<close>, oldest
  first; \<open>feedback\<close> lists, for each call of \<open>showCommandFeedback\<close>, the message it
  shows and the confidence from which it computes the percentage and the kind of the
  notification;
  \<open>requests\<close> lists the utterances handed to \<open>sendToAI\<close>; \<open>warned\<close> lists the actions
  reported by \<open>console.warn("Unknown AI command:", action)\<close>. The four are the trace of the
  module's outward effects. \<open>aiStore\<close> is the value under \<open>streamstudio-ai-commands\<close>.
\<close>

record ai =
  isEnabled :: bool
  isListening :: bool
  ai_recognition :: bool      \<comment> \<open>\<open>this.recognition\<close> is not \<open>null\<close>\<close>
  ai_started :: bool          \<comment> \<open>the engine has been started and has not ended\<close>
  settings :: ai_settings
  commandHistory :: "log_entry list"
  maxHistorySize :: nat
  aiStore :: "log_entry list option"
  dispatched :: "string list"
  feedback :: "(shown \<times> jsval) list"
  requests :: "string list"
  warned :: "jsval list"

definition new_AI :: ai where
  "new_AI = \<lparr>isEnabled = False, isListening = False, ai_recognition = False, ai_started = False,
     settings = \<lparr>apiKey = [], language = ''en-US'', sensitivity = double_0_7,
       commands = [(''start recording'', ''startRecording''), (''stop recording'', ''stopRecording''),
         (''go live'', ''startStreaming''), (''end stream'', ''stopStreaming''),
         (''take screenshot'', ''takeScreenshot''), (''mute audio'', ''toggleMute''),
         (''unmute audio'', ''toggleMute''), (''switch scene'', ''switchScene''),
         (''clear chat'', ''clearChat'')]\<rparr>,
     commandHistory = [], maxHistorySize = 50, aiStore = None,
     dispatched = [], feedback = [], requests = [], warned = []\<rparr>"

definition fuzzyCommands :: "(string \<times> string) list" where
  "fuzzyCommands = [(''start record'', ''startRecording''), (''begin record'', ''startRecording''),
     (''stop record'', ''stopRecording''), (''end record'', ''stopRecording''),
     (''start stream'', ''startStreaming''), (''begin stream'', ''startStreaming''),
     (''stop stream'', ''stopStreaming''), (''end stream'', ''stopStreaming''),
     (''screenshot'', ''takeScreenshot''), (''capture'', ''takeScreenshot''),
     (''mute'', ''toggleMute''), (''unmute'', ''toggleMute''),
     (''scene'', ''switchScene''), (''clear'', ''clearChat'')]"

text \<open>The first entry of a table whose phrase occurs in the transcript.\<close>

fun first_match :: "string \<Rightarrow> (string \<times> string) list \<Rightarrow> string option" where
  "first_match transcript [] = None"
| "first_match transcript ((command, action) # rest) =
     (if str_includes transcript command then Some action else first_match transcript rest)"

definition findMatchingCommand :: "string \<Rightarrow> ai \<Rightarrow> command_data option" where
  "findMatchingCommand transcript a =
     (case first_match transcript (commands (settings a)) of
        Some action \<Rightarrow> Some \<lparr>cd_action = Str action, cd_confidence = Undefined, cd_type = ''direct''\<rparr>
      | None \<Rightarrow>
         (case first_match transcript fuzzyCommands of
            Some action \<Rightarrow> Some \<lparr>cd_action = Str action, cd_confidence = Undefined, cd_type = ''fuzzy''\<rparr>
          | None \<Rightarrow> None))"

definition saveCommandHistory :: "env \<Rightarrow> ai \<Rightarrow> ai" where
  "saveCommandHistory e a = (if storageOk e then a\<lparr>aiStore := Some (commandHistory a)\<rparr> else a)"

definition logCommand :: "env \<Rightarrow> log_entry \<Rightarrow> ai \<Rightarrow> ai" where
  "logCommand e entry a =
     (let a1 = a\<lparr>commandHistory := commandHistory a @ [entry]\<rparr>;
          a2 = (if length (commandHistory a1) > maxHistorySize a1
                then a1\<lparr>commandHistory := tl (commandHistory a1)\<rparr> else a1)
      in saveCommandHistory e a2)"

definition logCommands :: "(env \<times> log_entry) list \<Rightarrow> ai \<Rightarrow> ai" where
  "logCommands ees a = foldl (\<lambda>a' (e, entry). logCommand e entry a') a ees"

text \<open>The \<open>switch\<close> of \<open>executeCommand\<close>: the event of an action, \<open>None\<close> on the default branch.\<close>

definition event_of :: "jsval \<Rightarrow> string option" where
  "event_of action =
     (if action = Str ''startRecording'' then Some ''ai-start-recording''
      else if action = Str ''stopRecording'' then Some ''ai-stop-recording''
      else if action = Str ''startStreaming'' then Some ''ai-start-streaming''
      else if action = Str ''stopStreaming'' then Some ''ai-stop-streaming''
      else if action = Str ''takeScreenshot'' then Some ''ai-take-screenshot''
      else if action = Str ''toggleMute'' then Some ''ai-toggle-mute''
      else if action = Str ''switchScene'' then Some ''ai-switch-scene''
      else if action = Str ''clearChat'' then Some ''ai-clear-chat''
      else None)"

text \<open>The command vocabulary: the eight \<open>case\<close> labels of that \<open>switch\<close>.\<close>

definition vocabulary :: "string list" where
  "vocabulary = [''startRecording'', ''stopRecording'', ''startStreaming'', ''stopStreaming'',
     ''takeScreenshot'', ''toggleMute'', ''switchScene'', ''clearChat'']"

definition triggerEvent :: "string \<Rightarrow> ai \<Rightarrow> ai" where
  "triggerEvent eventName a = a\<lparr>dispatched := dispatched a @ [eventName]\<rparr>"

definition feedbackMessages :: "(string \<times> string) list" where
  "feedbackMessages = [(''startRecording'', ''Starting recording...''),
     (''stopRecording'', ''Stopping recording...''), (''startStreaming'', ''Going live...''),
     (''stopStreaming'', ''Ending stream...''), (''takeScreenshot'', ''Taking screenshot...''),
     (''toggleMute'', ''Toggling audio...''), (''switchScene'', ''Switching scene...''),
     (''clearChat'', ''Clearing chat...'')]"

text \<open>\<open>feedbackMessages[action] || "Command executed"\<close>.\<close>

definition feedbackMessage :: "jsval \<Rightarrow> shown" where
  "feedbackMessage action =
     (case propertyKey action of
        None \<Rightarrow> Text ''Command executed''
      | Some k \<Rightarrow>
         (case map_of feedbackMessages k of
            Some message \<Rightarrow> Text message
          | None \<Rightarrow> if k \<in> set objectPrototypeNames then Inherited k
                    else Text ''Command executed''))"

definition showCommandFeedback :: "jsval \<Rightarrow> jsval \<Rightarrow> ai \<Rightarrow> ai" where
  "showCommandFeedback action confidence a =
     a\<lparr>feedback := feedback a @ [(feedbackMessage action, confidence)]\<rparr>"

definition executeCommand :: "env \<Rightarrow> command_data \<Rightarrow> string \<Rightarrow> ai \<Rightarrow> ai" where
  "executeCommand e commandData transcript a =
     (let a1 = logCommand e \<lparr>log_action = cd_action commandData, originalTranscript = transcript,
                 log_confidence = cd_confidence commandData, log_type = cd_type commandData,
                 log_timestamp = now e\<rparr> a;
          a2 = (case event_of (cd_action commandData) of
                  Some eventName \<Rightarrow> triggerEvent eventName a1
                | None \<Rightarrow> a1\<lparr>warned := warned a1 @ [cd_action commandData]\<rparr>)
      in showCommandFeedback (cd_action commandData) (cd_confidence commandData) a2)"

text \<open>
  What comes back from \<open>sendToAI\<close>: \<open>Failed\<close> when the promise rejects (the request fails
  or the body does not parse), otherwise the \<open>action\<close>, \<open>confidence\<close> and \<open>reason\<close> of the
  parsed content.
\<close>

datatype reply = Failed | Replied jsval jsval jsval

definition processNaturalLanguageCommand :: "env \<Rightarrow> reply \<Rightarrow> string \<Rightarrow> ai \<Rightarrow> ai" where
  "processNaturalLanguageCommand e r transcript a =
     (if apiKey (settings a) = [] then a
      else let a1 = a\<lparr>requests := requests a @ [transcript]\<rparr>
           in case r of
                Failed \<Rightarrow> a1
              | Replied action confidence reason \<Rightarrow>
                  (let response = \<lparr>cd_action = action,
                         cd_confidence = (if truthy confidence then confidence else Num (1 / 2)),
                         cd_type = ''ai''\<rparr>
                   in if truthy (cd_action response) then executeCommand e response transcript a1
                      else a1))"

definition processCommand :: "env \<Rightarrow> reply \<Rightarrow> string \<Rightarrow> ai \<Rightarrow> ai" where
  "processCommand e r transcript a =
     (case findMatchingCommand transcript a of
        Some matchedCommand \<Rightarrow> executeCommand e matchedCommand transcript a
      | None \<Rightarrow> processNaturalLanguageCommand e r transcript a)"

definition AI_handleRecognitionResult ::
    "env \<Rightarrow> reply \<Rightarrow> recog_event \<Rightarrow> ai \<Rightarrow> (string \<times> ai) + ai" where
  "AI_handleRecognitionResult e r event a =
     (if results event = [] then Inl (''TypeError'', a)
      else let lastResult = last (results event)
           in if isFinal lastResult
              then (let transcript = trim (toLowerCase (alt_transcript lastResult));
                        confidence = alt_confidence lastResult
                    in if confidence \<ge> sensitivity (settings a)
                       then Inr (processCommand e r transcript a) else Inr a)
              else Inr a)"

definition loadCommandHistory :: "ai \<Rightarrow> ai" where
  "loadCommandHistory a = (case aiStore a of None \<Rightarrow> a | Some saved \<Rightarrow> a\<lparr>commandHistory := saved\<rparr>)"

definition setEnabled :: "bool \<Rightarrow> ai \<Rightarrow> (string \<times> ai) + ai" where
  "setEnabled enabled a =
     (let a1 = a\<lparr>isEnabled := enabled\<rparr>
      in if enabled \<and> ai_recognition a1
         then (case recognition_start (ai_started a1) of
                 Inl err \<Rightarrow> Inl (err, a1)
               | Inr st \<Rightarrow> Inr (a1\<lparr>ai_started := st\<rparr>))
         else Inr a1)"

text \<open>The handlers \<open>onstart\<close> and \<open>onend\<close> of the engine, and the restart timer of \<open>onend\<close>.\<close>

definition AI_onstart :: "ai \<Rightarrow> ai" where
  "AI_onstart a = a\<lparr>isListening := True\<rparr>"

definition AI_onend :: "ai \<Rightarrow> ai" where
  "AI_onend a = a\<lparr>isListening := False, ai_started := False\<rparr>"

definition AI_restart :: "ai \<Rightarrow> (string \<times> ai) + ai" where
  "AI_restart a =
     (if isEnabled a
      then (case recognition_start (ai_started a) of
              Inl err \<Rightarrow> Inl (err, a)
            | Inr st \<Rightarrow> Inr (a\<lparr>ai_started := st\<rparr>))
      else Inr a)"

text \<open>
  \<open>updateSettings\<close> of the interpreter and of the streamer merge and then write to
  storage without a \<open>try\<close>. Their one caller is \<open>saveSettings\<close> of the controller, whose
  own write comes first; the failure of a write is modelled there.
\<close>

definition AI_updateSettings :: "(ai_settings \<Rightarrow> ai_settings) \<Rightarrow> ai \<Rightarrow> ai" where
  "AI_updateSettings newSettings a = a\<lparr>settings := newSettings (settings a)\<rparr>"

text \<open>
  \<open>cleanup\<close>: the history is saved under a \<open>try\<close>, the settings after it are not, so a
  write that fails leaves the method by an exception.
\<close>

definition AI_cleanup :: "env \<Rightarrow> ai \<Rightarrow> (string \<times> ai) + ai" where
  "AI_cleanup e a =
     (case setEnabled False a of
        Inl x \<Rightarrow> Inl x
      | Inr a1 \<Rightarrow>
         (let a2 = saveCommandHistory e a1
          in if storageOk e then Inr a2 else Inl (''QuotaExceededError'', a2)))"

subsection \<open>Transcript (\<open>transcript.js\<close>)\<close>

record segment =
  seg_id :: string
  seg_text :: string
  seg_timestamp :: int
  startTime :: int
  endTime :: int
  seg_confidence :: rat

text \<open>\<open>transcriptStore\<close> is the \<open>segments\<close> array under the key \<open>streamstudio-transcript\<close>.\<close>

record transcript_obj =
  isActive :: bool
  transcript :: "segment list"
  t_recognition :: bool       \<comment> \<open>\<open>this.recognition\<close> is not \<open>null\<close>\<close>
  t_started :: bool           \<comment> \<open>the engine has been started and has not ended\<close>
  currentSegment :: string
  segmentStartTime :: "int option"
  transcriptStore :: "segment list option"

definition new_Transcript :: transcript_obj where
  "new_Transcript = \<lparr>isActive = False, transcript = [], t_recognition = False, t_started = False,
     currentSegment = [], segmentStartTime = None, transcriptStore = None\<rparr>"

text \<open>\<open>init\<close>: the argument says whether the browser has a speech recognition constructor.\<close>

definition Transcript_init :: "bool \<Rightarrow> transcript_obj \<Rightarrow> transcript_obj" where
  "Transcript_init supported t = (if \<not> supported then t else t\<lparr>t_recognition := True\<rparr>)"

definition generateSegmentId :: "env \<Rightarrow> string" where
  "generateSegmentId e = ''seg_'' @ toString_int (now e) @ ''_'' @ randomId e"

definition saveTranscript :: "env \<Rightarrow> transcript_obj \<Rightarrow> transcript_obj" where
  "saveTranscript e t = (if storageOk e then t\<lparr>transcriptStore := Some (transcript t)\<rparr> else t)"

definition addTranscriptSegment :: "env \<Rightarrow> string \<Rightarrow> transcript_obj \<Rightarrow> transcript_obj" where
  "addTranscriptSegment e txt t =
     (if trim txt = [] then t
      else let seg = \<lparr>seg_id = generateSegmentId e, seg_text = trim txt, seg_timestamp = now e,
                       startTime = (case segmentStartTime t of
                                      None \<Rightarrow> now e
                                    | Some st \<Rightarrow> if st = 0 then now e else st),
                       endTime = now e, seg_confidence = 1\<rparr>
           in saveTranscript e
                (t\<lparr>transcript := transcript t @ [seg], currentSegment := [],
                   segmentStartTime := Some (now e)\<rparr>))"

text \<open>The loop of \<open>handleRecognitionResult\<close>: the interim and the final text from \<open>resultIndex\<close> on.\<close>

fun collect :: "recog_result list \<Rightarrow> string \<times> string" where
  "collect [] = ([], [])"
| "collect (r # rs) =
     (let (interim, final) = collect rs
      in if isFinal r then (interim, alt_transcript r @ final)
         else (alt_transcript r @ interim, final))"

definition Transcript_handleRecognitionResult ::
    "env \<Rightarrow> recog_event \<Rightarrow> transcript_obj \<Rightarrow> transcript_obj" where
  "Transcript_handleRecognitionResult e event t =
     (let (interimTranscript, finalTranscript) = collect (drop (resultIndex event) (results event));
          t1 = (if interimTranscript \<noteq> [] then t\<lparr>currentSegment := interimTranscript\<rparr> else t)
      in if finalTranscript \<noteq> [] then addTranscriptSegment e finalTranscript t1 else t1)"

definition Transcript_start :: "env \<Rightarrow> transcript_obj \<Rightarrow> transcript_obj" where
  "Transcript_start e t =
     (if \<not> t_recognition t then t
      else if isActive t then t
      else let t1 = t\<lparr>isActive := True, transcript := [], currentSegment := [],
                      segmentStartTime := Some (now e)\<rparr>
           in case recognition_start (t_started t1) of
                Inl err \<Rightarrow> t1\<lparr>isActive := False\<rparr>
              | Inr st \<Rightarrow> t1\<lparr>t_started := st\<rparr>)"

definition Transcript_stop :: "env \<Rightarrow> transcript_obj \<Rightarrow> transcript_obj" where
  "Transcript_stop e t =
     (if \<not> isActive t then t
      else let t1 = t\<lparr>isActive := False\<rparr>;
               t2 = (if trim (currentSegment t1) \<noteq> []
                     then addTranscriptSegment e (currentSegment t1) t1 else t1)
           in saveTranscript e t2)"

definition loadTranscript :: "transcript_obj \<Rightarrow> transcript_obj" where
  "loadTranscript t = (case transcriptStore t of None \<Rightarrow> t | Some segs \<Rightarrow> t\<lparr>transcript := segs\<rparr>)"

definition Transcript_cleanup :: "env \<Rightarrow> transcript_obj \<Rightarrow> transcript_obj" where
  "Transcript_cleanup e t = saveTranscript e (Transcript_stop e t)"

text \<open>The handler \<open>onend\<close> of the engine and the restart timer it arms while active.\<close>

definition Transcript_onend :: "transcript_obj \<Rightarrow> transcript_obj" where
  "Transcript_onend t = t\<lparr>t_started := False\<rparr>"

definition Transcript_restart :: "transcript_obj \<Rightarrow> (string \<times> transcript_obj) + transcript_obj" where
  "Transcript_restart t =
     (if isActive t
      then (case recognition_start (t_started t) of
              Inl err \<Rightarrow> Inl (err, t)
            | Inr st \<Rightarrow> Inr (t\<lparr>t_started := st\<rparr>))
      else Inr t)"

text \<open>
  \<open>new Date(timestamp)\<close> read in local time. \<open>tz\<close> gives, for each instant, the offset
  of local time from UTC in minutes at that instant (the negation of
  \<open>getTimezoneOffset()\<close>). A time value beyond 8.64e15 milliseconds gives an invalid date,
  whose getters return \<open>NaN\<close>.
\<close>

definition validDate :: "int \<Rightarrow> bool" where
  "validDate timestamp = (\<bar>timestamp\<bar> \<le> 8640000000000000)"

definition localMs :: "(int \<Rightarrow> int) \<Rightarrow> int \<Rightarrow> int" where
  "localMs tz timestamp = timestamp + tz timestamp * 60000"

definition getHours :: "(int \<Rightarrow> int) \<Rightarrow> int \<Rightarrow> nat" where
  "getHours tz timestamp = nat ((localMs tz timestamp div 3600000) mod 24)"

definition getMinutes :: "(int \<Rightarrow> int) \<Rightarrow> int \<Rightarrow> nat" where
  "getMinutes tz timestamp = nat ((localMs tz timestamp div 60000) mod 60)"

definition getSeconds :: "(int \<Rightarrow> int) \<Rightarrow> int \<Rightarrow> nat" where
  "getSeconds tz timestamp = nat ((localMs tz timestamp div 1000) mod 60)"

definition getMilliseconds :: "(int \<Rightarrow> int) \<Rightarrow> int \<Rightarrow> nat" where
  "getMilliseconds tz timestamp = nat (localMs tz timestamp mod 1000)"

definition formatSRTTime :: "(int \<Rightarrow> int) \<Rightarrow> int \<Rightarrow> string" where
  "formatSRTTime tz timestamp =
     (if validDate timestamp
      then padStart 2 (toString_nat (getHours tz timestamp)) @ '':'' @
           padStart 2 (toString_nat (getMinutes tz timestamp)) @ '':'' @
           padStart 2 (toString_nat (getSeconds tz timestamp)) @ '','' @
           padStart 3 (toString_nat (getMilliseconds tz timestamp))
      else ''NaN:NaN:NaN,NaN'')"

definition formatVTTTime :: "(int \<Rightarrow> int) \<Rightarrow> int \<Rightarrow> string" where
  "formatVTTTime tz timestamp =
     (if validDate timestamp
      then padStart 2 (toString_nat (getHours tz timestamp)) @ '':'' @
           padStart 2 (toString_nat (getMinutes tz timestamp)) @ '':'' @
           padStart 2 (toString_nat (getSeconds tz timestamp)) @ ''.'' @
           padStart 3 (toString_nat (getMilliseconds tz timestamp))
      else ''NaN:NaN:NaN.NaN'')"

definition newline :: string where
  "newline = [CHR 0x0A]"

text \<open>The body of the \<open>forEach\<close> of \<open>exportAsSRT\<close>, from the entry of the given index on.\<close>

fun srt_from :: "(int \<Rightarrow> int) \<Rightarrow> nat \<Rightarrow> segment list \<Rightarrow> string" where
  "srt_from tz index [] = []"
| "srt_from tz index (seg # segs) =
     toString_nat (index + 1) @ newline @
     formatSRTTime tz (startTime seg) @ '' --> '' @ formatSRTTime tz (endTime seg) @ newline @
     seg_text seg @ newline @ newline @
     srt_from tz (index + 1) segs"

definition exportAsSRT :: "(int \<Rightarrow> int) \<Rightarrow> transcript_obj \<Rightarrow> string" where
  "exportAsSRT tz t = srt_from tz 0 (transcript t)"

fun vtt_from :: "(int \<Rightarrow> int) \<Rightarrow> segment list \<Rightarrow> string" where
  "vtt_from tz [] = []"
| "vtt_from tz (seg # segs) =
     formatVTTTime tz (startTime seg) @ '' --> '' @ formatVTTTime tz (endTime seg) @ newline @
     seg_text seg @ newline @ newline @
     vtt_from tz segs"

definition exportAsVTT :: "(int \<Rightarrow> int) \<Rightarrow> transcript_obj \<Rightarrow> string" where
  "exportAsVTT tz t = ''WEBVTT'' @ newline @ newline @ vtt_from tz (transcript t)"

subsection \<open>Streamer (\<open>streamer.js\<close>)\<close>

record platform_config =
  p_name :: string
  p_serverUrl :: string
  requiresKey :: bool

record streamer_settings =
  streamKey :: string
  serverUrl :: string
  st_bitrate :: nat
  st_resolution :: string
  st_frameRate :: nat

text \<open>
  \<open>platforms\<close> maps the own keys of the table. \<open>this.platforms[platform]\<close> also finds
  the names inherited from \<open>Object.prototype\<close>: what it gives for them is truthy and has
  no \<open>requiresKey\<close>, so \<open>start\<close> goes on without asking for a key.
\<close>

record streamer =
  st_isStreaming :: bool
  viewerCount :: int
  st_settings :: streamer_settings
  platforms :: "string \<rightharpoonup> platform_config"

definition new_Streamer :: streamer where
  "new_Streamer = \<lparr>st_isStreaming = False, viewerCount = 0,
     st_settings = \<lparr>streamKey = [], serverUrl = [], st_bitrate = 2500,
       st_resolution = ''1920x1080'', st_frameRate = 30\<rparr>,
     platforms = [
       ''youtube'' \<mapsto> \<lparr>p_name = ''YouTube Live'', p_serverUrl = ''rtmp://a.rtmp.youtube.com/live2'',
                       requiresKey = True\<rparr>,
       ''twitch'' \<mapsto> \<lparr>p_name = ''Twitch'', p_serverUrl = ''rtmp://live.twitch.tv/live'',
                      requiresKey = True\<rparr>,
       ''facebook'' \<mapsto> \<lparr>p_name = ''Facebook Live'',
                        p_serverUrl = ''rtmp://rtmp-api.facebook.com:80/rtmp'', requiresKey = True\<rparr>,
       ''custom'' \<mapsto> \<lparr>p_name = ''Custom RTMP'', p_serverUrl = [], requiresKey = True\<rparr>]\<rparr>"

definition Streamer_start :: "string \<Rightarrow> nat \<Rightarrow> streamer \<Rightarrow> (string \<times> streamer) + streamer" where
  "Streamer_start platform sourceStream s =
     (if st_isStreaming s then Inl (''Streaming is already in progress'', s)
      else case platforms s platform of
             None \<Rightarrow>
               if platform \<in> set objectPrototypeNames then Inr (s\<lparr>st_isStreaming := True\<rparr>)
               else Inl (''Invalid platform selected'', s)
           | Some platformConfig \<Rightarrow>
               if requiresKey platformConfig \<and> streamKey (st_settings s) = []
               then Inl (''Stream key is required for this platform'', s)
               else Inr (s\<lparr>st_isStreaming := True\<rparr>))"

definition Streamer_stop :: "streamer \<Rightarrow> (string \<times> streamer) + streamer" where
  "Streamer_stop s =
     (if \<not> st_isStreaming s then Inl (''No streaming in progress'', s)
      else Inr (s\<lparr>st_isStreaming := False, viewerCount := 0\<rparr>))"

text \<open>
  The interval callback of \<open>startViewerCountSimulation\<close>; \<open>change\<close> is
  \<open>Math.floor(Math.random() * 10) - 5\<close>.
\<close>

definition viewerTick :: "int \<Rightarrow> streamer \<Rightarrow> streamer" where
  "viewerTick change s =
     (if st_isStreaming s then s\<lparr>viewerCount := max 0 (viewerCount s + change)\<rparr> else s)"

definition Streamer_updateSettings :: "(streamer_settings \<Rightarrow> streamer_settings) \<Rightarrow> streamer \<Rightarrow> streamer" where
  "Streamer_updateSettings streamingSettings s = s\<lparr>st_settings := streamingSettings (st_settings s)\<rparr>"

text \<open>
  \<open>testConnection\<close>: \<open>random\<close> is the value of \<open>Math.random()\<close>. The result is the returned
  object \<open>{success, message}\<close> paired with the streamer after the call.
\<close>

definition testConnection ::
    "string \<Rightarrow> string \<Rightarrow> string \<Rightarrow> rat \<Rightarrow> streamer \<Rightarrow> (bool \<times> string) \<times> streamer" where
  "testConnection platform key url random s =
     (let success = (random > 3 / 10)
      in if success then ((True, ''Connection test successful''), s)
         else ((False, ''Connection test failed. Please check your stream key and server URL.''), s))"

text \<open>\<open>cleanup\<close> calls \<open>stop()\<close> without awaiting it; the call has settled here.\<close>

definition Streamer_cleanup :: "streamer \<Rightarrow> streamer" where
  "Streamer_cleanup s =
     (let s1 = (if st_isStreaming s
                then (case Streamer_stop s of Inl (err, s') \<Rightarrow> s' | Inr s' \<Rightarrow> s') else s)
      in s1\<lparr>viewerCount := 0\<rparr>)"

subsection \<open>Recorder (\<open>recorder.js\<close>)\<close>

text \<open>
  A media stream is the handle the browser returned for it. \<open>rec_startCalls\<close> is not a
  property of the class: it counts the calls of \<open>start\<close>, so that a claim can say how often
  the engine was asked to start.
\<close>

record recorder =
  rec_isRecording :: bool
  stream :: "nat option"
  mediaRecorder :: bool       \<comment> \<open>\<open>this.mediaRecorder\<close> is not \<open>null\<close>\<close>
  recordedChunks :: "nat list"
  rec_startCalls :: nat

definition new_Recorder :: recorder where
  "new_Recorder = \<lparr>rec_isRecording = False, stream = None, mediaRecorder = False,
     recordedChunks = [], rec_startCalls = 0\<rparr>"

definition Recorder_selectSource :: "env \<Rightarrow> string \<Rightarrow> recorder \<Rightarrow> (string \<times> recorder) + (nat \<times> recorder)" where
  "Recorder_selectSource e sourceType r =
     (if sourceType \<in> {''camera'', ''screen'', ''window'', ''browser''}
      then (case acquire e of
              Inl err \<Rightarrow> Inl (err, r)
            | Inr st \<Rightarrow> Inr (st, r\<lparr>stream := Some st\<rparr>))
      else Inl (''Unknown source type'', r))"

definition Recorder_start :: "env \<Rightarrow> nat \<Rightarrow> recorder \<Rightarrow> (string \<times> recorder) + recorder" where
  "Recorder_start e sourceStream r =
     (let r0 = r\<lparr>rec_startCalls := rec_startCalls r + 1\<rparr>
      in if rec_isRecording r0 then Inl (''Recording is already in progress'', r0)
         else let r1 = r0\<lparr>recordedChunks := []\<rparr>
              in if \<not> mediaOk e then Inl (''NotSupportedError'', r1)
                 else let r2 = r1\<lparr>mediaRecorder := True\<rparr>
                      in if \<not> mediaStartOk e then Inl (''InvalidStateError'', r2)
                         else Inr (r2\<lparr>rec_isRecording := True\<rparr>))"

definition Recorder_stop :: "env \<Rightarrow> recorder \<Rightarrow> (string \<times> recorder) + recorder" where
  "Recorder_stop e r =
     (if \<not> rec_isRecording r \<or> \<not> mediaRecorder r then Inl (''No recording in progress'', r)
      else if \<not> mediaOk e then Inl (''InvalidStateError'', r)
      else Inr (r\<lparr>rec_isRecording := False\<rparr>))"

subsection \<open>StreamStudio, the controller with the sign-in gate\<close>

text \<open>
  The repository holds two versions of the controller class. The one with the sign-in gate
  and the deferred start (the second document of \<open>recorder.js\<close>) is embedded in full; of
  the plain one (\<open>app.js\<close>) the two methods that differ in what the claims are about follow
  at the end of this subsection. \<open>stopRecording\<close>, \<open>startStreaming\<close> and \<open>stopStreaming\<close> are the same text in
  both.
\<close>

text \<open>
  The closures handed to \<open>requireAuth\<close>: \<open>() => this.startRecording()\<close>,
  \<open>() => { this.chat.sendMessage(pendingMessage) }\<close> and the closure of
  \<open>toggleAICommands\<close> that ticks the box and enables the interpreter.
\<close>

datatype deferred = DeferStartRecording | DeferSendChat string | DeferEnableAI

text \<open>
  The fields of the document the controller reads or writes are part of the record:
  \<open>alerts\<close> are the texts given to \<open>alert\<close> by \<open>showError\<close> and \<open>showSuccess\<close>, oldest
  first; \<open>notifications\<close> are the calls of \<open>ui.showNotification\<close>; \<open>chatInput\<close>,
  \<open>streamPlatform\<close> and \<open>aiCommands\<close> are the values of the three form controls.
  \<open>authStore\<close> is the e-mail under the key \<open>streamstudio-auth\<close>.
  \<open>invoked\<close> and \<open>startRecordingCalls\<close> are not properties of the class: the first lists
  the closures \<open>resumePostAuthAction\<close> has called, the second counts the calls of
  \<open>startRecording\<close>.
\<close>

record studio =
  recorder :: recorder
  streamer :: streamer
  chat :: chat
  ctl_transcript :: transcript_obj
  ai :: ai
  isRecording :: bool
  isStreaming :: bool
  currentSource :: "nat option"
  auth :: "string option"
  postAuthAction :: "deferred option"
  startAfterSource :: bool
  alerts :: "string list"
  notifications :: "(string \<times> string) list"
  status :: "string \<times> string"
  sourcesModal :: bool
  authModal :: bool
  chatInput :: string
  streamPlatform :: string
  aiCommands :: bool
  aiStatus :: string
  timerInterval :: bool
  recordingStartTime :: "int option"
  authStore :: "string option"
  invoked :: "deferred list"
  startRecordingCalls :: nat

text \<open>
  The constructor followed by \<open>init\<close>: \<open>storedAuth\<close> and \<open>storedChat\<close> are what
  \<open>localStorage\<close> holds, \<open>speech\<close> says whether the browser has speech recognition.
\<close>

definition new_StreamStudio :: "string option \<Rightarrow> message list option \<Rightarrow> bool \<Rightarrow> studio" where
  "new_StreamStudio storedAuth storedChat speech =
     \<lparr>recorder = new_Recorder, streamer = new_Streamer,
      chat = Chat_init (new_Chat\<lparr>chatStore := storedChat\<rparr>),
      ctl_transcript = Transcript_init speech new_Transcript,
      ai = new_AI\<lparr>ai_recognition := speech\<rparr>,
      isRecording = False, isStreaming = False, currentSource = None,
      auth = storedAuth, postAuthAction = None, startAfterSource = False,
      alerts = [], notifications = [], status = (''Ready'', ''ready''),
      sourcesModal = False, authModal = False, chatInput = [], streamPlatform = [],
      aiCommands = False, aiStatus = ''AI: Disabled'', timerInterval = False,
      recordingStartTime = None, authStore = storedAuth, invoked = [], startRecordingCalls = 0\<rparr>"

definition isAuthenticated :: "studio \<Rightarrow> bool" where
  "isAuthenticated s = (case auth s of None \<Rightarrow> False | Some email \<Rightarrow> email \<noteq> [])"

definition showError :: "string \<Rightarrow> studio \<Rightarrow> studio" where
  "showError msg s = s\<lparr>alerts := alerts s @ [''Error: '' @ msg]\<rparr>"

definition showSuccess :: "string \<Rightarrow> studio \<Rightarrow> studio" where
  "showSuccess msg s = s\<lparr>alerts := alerts s @ [''Success: '' @ msg]\<rparr>"

definition updateStatus :: "string \<Rightarrow> string \<Rightarrow> studio \<Rightarrow> studio" where
  "updateStatus txt ty s = s\<lparr>status := (txt, ty)\<rparr>"

definition updateUI :: "env \<Rightarrow> studio \<Rightarrow> studio" where
  "updateUI e s =
     (if isRecording s then s\<lparr>recordingStartTime := Some (now e), timerInterval := True\<rparr>
      else s\<lparr>timerInterval := False\<rparr>)"

definition showSourceModal :: "studio \<Rightarrow> studio" where
  "showSourceModal s = s\<lparr>sourcesModal := True\<rparr>"

definition hideSourceModal :: "studio \<Rightarrow> studio" where
  "hideSourceModal s = s\<lparr>sourcesModal := False\<rparr>"

definition showAuthModal :: "studio \<Rightarrow> studio" where
  "showAuthModal s = s\<lparr>authModal := True\<rparr>"

definition hideAuthModal :: "studio \<Rightarrow> studio" where
  "hideAuthModal s = s\<lparr>authModal := False\<rparr>"

definition requireAuth :: "deferred \<Rightarrow> studio \<Rightarrow> studio" where
  "requireAuth actionCallback s = showAuthModal (s\<lparr>postAuthAction := Some actionCallback\<rparr>)"

definition saveAuth :: "env \<Rightarrow> string \<Rightarrow> studio \<Rightarrow> studio" where
  "saveAuth e email s =
     (let s1 = s\<lparr>auth := Some email\<rparr>
      in if storageOk e then s1\<lparr>authStore := Some email\<rparr> else s1)"

definition clearAuth :: "studio \<Rightarrow> studio" where
  "clearAuth s = s\<lparr>auth := None, authStore := None\<rparr>"

definition startRecording :: "env \<Rightarrow> studio \<Rightarrow> studio" where
  "startRecording e s =
     (let s0 = s\<lparr>startRecordingCalls := startRecordingCalls s + 1\<rparr>
      in if \<not> isAuthenticated s0 then requireAuth DeferStartRecording s0
         else case currentSource s0 of
                None \<Rightarrow> showSourceModal (s0\<lparr>startAfterSource := True\<rparr>)
              | Some src \<Rightarrow>
                 (case Recorder_start e src (recorder s0) of
                    Inl (err, r) \<Rightarrow> showError ''Failed to start recording'' (s0\<lparr>recorder := r\<rparr>)
                  | Inr r \<Rightarrow>
                     (let s1 = s0\<lparr>recorder := r, isRecording := True\<rparr>;
                          s2 = updateStatus ''Recording'' ''recording'' (updateUI e s1)
                      in s2\<lparr>ctl_transcript := Transcript_start e (ctl_transcript s2)\<rparr>)))"

definition stopRecording :: "env \<Rightarrow> studio \<Rightarrow> studio" where
  "stopRecording e s =
     (case Recorder_stop e (recorder s) of
        Inl (err, r) \<Rightarrow> showError ''Failed to stop recording'' (s\<lparr>recorder := r\<rparr>)
      | Inr r \<Rightarrow>
         (let s1 = s\<lparr>recorder := r, isRecording := False\<rparr>;
              s2 = updateStatus ''Ready'' ''ready'' (updateUI e s1)
          in s2\<lparr>ctl_transcript := Transcript_stop e (ctl_transcript s2)\<rparr>))"

definition startStreaming :: "env \<Rightarrow> studio \<Rightarrow> studio" where
  "startStreaming e s =
     (let platform = streamPlatform s
      in if platform = [] then showError ''Please select a streaming platform'' s
         else case currentSource s of
                None \<Rightarrow> showError ''Please select a video source first'' s
              | Some src \<Rightarrow>
                 (case Streamer_start platform src (streamer s) of
                    Inl (err, st) \<Rightarrow> showError ''Failed to start streaming'' (s\<lparr>streamer := st\<rparr>)
                  | Inr st \<Rightarrow>
                      updateStatus ''Streaming'' ''streaming''
                        (updateUI e (s\<lparr>streamer := st, isStreaming := True\<rparr>))))"

definition stopStreaming :: "env \<Rightarrow> studio \<Rightarrow> studio" where
  "stopStreaming e s =
     (case Streamer_stop (streamer s) of
        Inl (err, st) \<Rightarrow> showError ''Failed to stop streaming'' (s\<lparr>streamer := st\<rparr>)
      | Inr st \<Rightarrow>
          updateStatus ''Ready'' ''ready'' (updateUI e (s\<lparr>streamer := st, isStreaming := False\<rparr>)))"

definition selectSource :: "env \<Rightarrow> string \<Rightarrow> studio \<Rightarrow> studio" where
  "selectSource e sourceType s =
     (case Recorder_selectSource e sourceType (recorder s) of
        Inl (err, r) \<Rightarrow> showError ''Failed to select video source'' (s\<lparr>recorder := r\<rparr>)
      | Inr (st, r) \<Rightarrow>
         (let s1 = updateUI e (hideSourceModal (s\<lparr>recorder := r, currentSource := Some st\<rparr>))
          in if startAfterSource s1 then startRecording e (s1\<lparr>startAfterSource := False\<rparr>)
             else s1))"

definition sendChatMessage :: "env \<Rightarrow> studio \<Rightarrow> studio" where
  "sendChatMessage e s =
     (let message = trim (chatInput s)
      in if message \<noteq> []
         then (if \<not> isAuthenticated s then requireAuth (DeferSendChat message) s
               else s\<lparr>chat := sendMessage e message (chat s), chatInput := []\<rparr>)
         else s)"

text \<open>\<open>toggleAICommands\<close>: \<open>enabled\<close> is \<open>event.target.checked\<close>, the box as the click left it.\<close>

definition toggleAICommands :: "env \<Rightarrow> bool \<Rightarrow> studio \<Rightarrow> (string \<times> studio) + studio" where
  "toggleAICommands e enabled s =
     (let s0 = s\<lparr>aiCommands := enabled\<rparr>
      in if enabled \<and> \<not> isAuthenticated s0
         then Inr (requireAuth DeferEnableAI (s0\<lparr>aiCommands := False\<rparr>))
         else case setEnabled enabled (ai s0) of
                Inl (err, a) \<Rightarrow> Inl (err, s0\<lparr>ai := a\<rparr>)
              | Inr a \<Rightarrow>
                  Inr (s0\<lparr>ai := a, aiStatus := (if enabled then ''AI: Listening'' else ''AI: Disabled'')\<rparr>))"

text \<open>Calling a closure that was handed to \<open>requireAuth\<close>.\<close>

definition call_deferred :: "env \<Rightarrow> deferred \<Rightarrow> studio \<Rightarrow> (string \<times> studio) + studio" where
  "call_deferred e action s =
     (case action of
        DeferStartRecording \<Rightarrow> Inr (startRecording e s)
      | DeferSendChat pendingMessage \<Rightarrow> Inr (s\<lparr>chat := sendMessage e pendingMessage (chat s)\<rparr>)
      | DeferEnableAI \<Rightarrow>
         (let s1 = s\<lparr>aiCommands := True\<rparr>
          in case setEnabled True (ai s1) of
               Inl (err, a) \<Rightarrow> Inl (err, s1\<lparr>ai := a\<rparr>)
             | Inr a \<Rightarrow> Inr (s1\<lparr>ai := a, aiStatus := ''AI: Listening''\<rparr>)))"

definition resumePostAuthAction :: "env \<Rightarrow> studio \<Rightarrow> (string \<times> studio) + studio" where
  "resumePostAuthAction e s =
     (case postAuthAction s of
        None \<Rightarrow> Inr s
      | Some action \<Rightarrow>
          call_deferred e action (s\<lparr>postAuthAction := None, invoked := invoked s @ [action]\<rparr>))"

text \<open>
  \<open>handleAuthSignIn\<close> and \<open>handleAuthSignUp\<close>: \<open>email\<close> and \<open>password\<close> are the values of
  the two input fields of the form.
\<close>

definition handleAuth :: "string \<Rightarrow> env \<Rightarrow> string \<Rightarrow> string \<Rightarrow> studio \<Rightarrow> (string \<times> studio) + studio" where
  "handleAuth notice e email password s =
     (if trim email = [] \<or> password = [] then Inr (showError ''Please enter email and password'' s)
      else case resumePostAuthAction e (hideAuthModal (saveAuth e (trim email) s)) of
             Inl x \<Rightarrow> Inl x
           | Inr s1 \<Rightarrow> Inr (s1\<lparr>notifications := notifications s1 @ [(notice, ''success'')]\<rparr>))"

definition handleAuthSignIn :: "env \<Rightarrow> string \<Rightarrow> string \<Rightarrow> studio \<Rightarrow> (string \<times> studio) + studio" where
  "handleAuthSignIn = handleAuth ''Signed in''"

definition handleAuthSignUp :: "env \<Rightarrow> string \<Rightarrow> string \<Rightarrow> studio \<Rightarrow> (string \<times> studio) + studio" where
  "handleAuthSignUp = handleAuth ''Account created & signed in''"

definition logout :: "studio \<Rightarrow> studio" where
  "logout s = (let s1 = clearAuth s in s1\<lparr>notifications := notifications s1 @ [(''Logged out'', ''info'')]\<rparr>)"

text \<open>
  \<open>saveSettings\<close>: the two arguments are the merges of the form's values into the
  streamer's and the interpreter's settings (the recorder's settings are read by no
  method embedded here). The method writes to storage first and without a \<open>try\<close>: when
  the write fails it is left by an exception before any setting is applied.
\<close>

definition saveSettings ::
    "env \<Rightarrow> (streamer_settings \<Rightarrow> streamer_settings) \<Rightarrow> (ai_settings \<Rightarrow> ai_settings) \<Rightarrow>
     studio \<Rightarrow> (string \<times> studio) + studio" where
  "saveSettings e streaming aiSettings s =
     (if \<not> storageOk e then Inl (''QuotaExceededError'', s)
      else Inr (showSuccess ''Settings saved successfully''
             (s\<lparr>streamer := Streamer_updateSettings streaming (streamer s),
                ai := AI_updateSettings aiSettings (ai s)\<rparr>)))"

text \<open>The state a call leaves behind, whether it returned or threw.\<close>

definition state_of :: "(string \<times> 's) + 's \<Rightarrow> 's" where
  "state_of r = (case r of Inl (err, s) \<Rightarrow> s | Inr s \<Rightarrow> s)"

text \<open>The plain controller of \<open>app.js\<close>: \<open>startRecording\<close> and \<open>selectSource\<close>.\<close>

definition startRecording_app :: "env \<Rightarrow> studio \<Rightarrow> studio" where
  "startRecording_app e s =
     (let s0 = s\<lparr>startRecordingCalls := startRecordingCalls s + 1\<rparr>
      in case currentSource s0 of
           None \<Rightarrow> showError ''Please select a video source first'' s0
         | Some src \<Rightarrow>
            (case Recorder_start e src (recorder s0) of
               Inl (err, r) \<Rightarrow> showError ''Failed to start recording'' (s0\<lparr>recorder := r\<rparr>)
             | Inr r \<Rightarrow>
                (let s1 = s0\<lparr>recorder := r, isRecording := True\<rparr>;
                     s2 = updateStatus ''Recording'' ''recording'' (updateUI e s1)
                 in s2\<lparr>ctl_transcript := Transcript_start e (ctl_transcript s2)\<rparr>)))"

definition selectSource_app :: "env \<Rightarrow> string \<Rightarrow> studio \<Rightarrow> studio" where
  "selectSource_app e sourceType s =
     (case Recorder_selectSource e sourceType (recorder s) of
        Inl (err, r) \<Rightarrow> showError ''Failed to select video source'' (s\<lparr>recorder := r\<rparr>)
      | Inr (st, r) \<Rightarrow> updateUI e (hideSourceModal (s\<lparr>recorder := r, currentSource := Some st\<rparr>)))"

text \<open>
  The three actions behind the gate, as the user attempts them: pressing the record
  button, sending the text typed into the chat box, ticking the voice command box.
  \<open>closure_of\<close> is the closure such an attempt hands to \<open>requireAuth\<close> when nobody is
  signed in. A chat text that trims to nothing is dropped before the gate and is no attempt.
\<close>

datatype gated = TryStartRecording | TrySendChat string | TryEnableAI

definition attempt :: "env \<Rightarrow> gated \<Rightarrow> studio \<Rightarrow> studio" where
  "attempt e g s =
     (case g of
        TryStartRecording \<Rightarrow> startRecording e s
      | TrySendChat typed \<Rightarrow> sendChatMessage e (s\<lparr>chatInput := typed\<rparr>)
      | TryEnableAI \<Rightarrow> state_of (toggleAICommands e True s))"

definition closure_of :: "gated \<Rightarrow> deferred" where
  "closure_of g =
     (case g of
        TryStartRecording \<Rightarrow> DeferStartRecording
      | TrySendChat typed \<Rightarrow> DeferSendChat (trim typed)
      | TryEnableAI \<Rightarrow> DeferEnableAI)"

definition is_attempt :: "gated \<Rightarrow> bool" where
  "is_attempt g = (case g of TrySendChat typed \<Rightarrow> trim typed \<noteq> [] | _ \<Rightarrow> True)"

subsection \<open>The operations of the three logs\<close>

text \<open>
  Every method of \<open>Chat\<close>, \<open>Transcript\<close> and \<open>AI\<close> that writes a field of its object, as
  one datatype per class with the function that runs an operation.
\<close>

datatype chat_op =
    SendMessage string | ViewerResponse nat nat | AddSystemMessage string
  | AddModeratorMessage string string | BlockUser string | UnblockUser string
  | AddModerator string | RemoveModerator string | ToggleVisibility
  | ClearChat | LoadChatHistory | ChatCleanup

fun chat_step :: "env \<Rightarrow> chat_op \<Rightarrow> chat \<Rightarrow> chat" where
  "chat_step e (SendMessage txt) c = sendMessage e txt c"
| "chat_step e (ViewerResponse k v) c = viewerResponse e k v c"
| "chat_step e (AddSystemMessage txt) c = addSystemMessage e txt c"
| "chat_step e (AddModeratorMessage txt name) c = addModeratorMessage e txt name c"
| "chat_step e (BlockUser u) c = blockUser e u c"
| "chat_step e (UnblockUser u) c = unblockUser e u c"
| "chat_step e (AddModerator u) c = addModerator e u c"
| "chat_step e (RemoveModerator u) c = removeModerator e u c"
| "chat_step e ToggleVisibility c = toggleVisibility c"
| "chat_step e ClearChat c = clearChat e c"
| "chat_step e LoadChatHistory c = loadChatHistory c"
| "chat_step e ChatCleanup c = Chat_cleanup e c"

datatype transcript_op =
    TStart | TStop | TResult recog_event | TAddSegment string | TLoad | TCleanup
  | TOnend | TRestart

fun transcript_step :: "env \<Rightarrow> transcript_op \<Rightarrow> transcript_obj \<Rightarrow> transcript_obj" where
  "transcript_step e TStart t = Transcript_start e t"
| "transcript_step e TStop t = Transcript_stop e t"
| "transcript_step e (TResult event) t = Transcript_handleRecognitionResult e event t"
| "transcript_step e (TAddSegment txt) t = addTranscriptSegment e txt t"
| "transcript_step e TLoad t = loadTranscript t"
| "transcript_step e TCleanup t = Transcript_cleanup e t"
| "transcript_step e TOnend t = Transcript_onend t"
| "transcript_step e TRestart t = state_of (Transcript_restart t)"

datatype ai_op =
    AResult reply recog_event | AProcess reply string | AExecute command_data string
  | ALog log_entry | ALoad | ASetEnabled bool | AOnstart | AOnend | ARestart | ACleanup

fun ai_step :: "env \<Rightarrow> ai_op \<Rightarrow> ai \<Rightarrow> ai" where
  "ai_step e (AResult r event) a = state_of (AI_handleRecognitionResult e r event a)"
| "ai_step e (AProcess r utterance) a = processCommand e r utterance a"
| "ai_step e (AExecute commandData utterance) a = executeCommand e commandData utterance a"
| "ai_step e (ALog entry) a = logCommand e entry a"
| "ai_step e ALoad a = loadCommandHistory a"
| "ai_step e (ASetEnabled enabled) a = state_of (setEnabled enabled a)"
| "ai_step e AOnstart a = AI_onstart a"
| "ai_step e AOnend a = AI_onend a"
| "ai_step e ARestart a = state_of (AI_restart a)"
| "ai_step e ACleanup a = state_of (AI_cleanup e a)"

subsection \<open>The states of a session\<close>

text \<open>
  The states the application gets into: from the constructor, by the handlers the
  controller registers (\<open>setupEventListeners\<close>, and the listeners of \<open>ui.js\<close> that forward
  the interpreter's events to the same methods), by the user filling in a form control, and
  by the callbacks of the modules (timers, recognition events). No handler calls a
  module's \<open>cleanup\<close>.
\<close>

inductive reachable :: "studio \<Rightarrow> bool" where
  r_init: "reachable (new_StreamStudio storedAuth storedChat speech)"
| r_startRecording: "reachable s \<Longrightarrow> reachable (startRecording e s)"
| r_stopRecording: "reachable s \<Longrightarrow> reachable (stopRecording e s)"
| r_startStreaming: "reachable s \<Longrightarrow> reachable (startStreaming e s)"
| r_stopStreaming: "reachable s \<Longrightarrow> reachable (stopStreaming e s)"
| r_selectSource: "reachable s \<Longrightarrow> reachable (selectSource e sourceType s)"
| r_sendChatMessage: "reachable s \<Longrightarrow> reachable (sendChatMessage e s)"
| r_toggleAICommands: "reachable s \<Longrightarrow> reachable (state_of (toggleAICommands e enabled s))"
| r_signIn: "reachable s \<Longrightarrow> reachable (state_of (handleAuthSignIn e email password s))"
| r_signUp: "reachable s \<Longrightarrow> reachable (state_of (handleAuthSignUp e email password s))"
| r_logout: "reachable s \<Longrightarrow> reachable (logout s)"
| r_saveSettings: "reachable s \<Longrightarrow> reachable (state_of (saveSettings e streaming aiSettings s))"
| r_showSourceModal: "reachable s \<Longrightarrow> reachable (showSourceModal s)"
| r_hideSourceModal: "reachable s \<Longrightarrow> reachable (hideSourceModal s)"
| r_showAuthModal: "reachable s \<Longrightarrow> reachable (showAuthModal s)"
| r_hideAuthModal: "reachable s \<Longrightarrow> reachable (hideAuthModal s)"
| r_typeChat: "reachable s \<Longrightarrow> reachable (s\<lparr>chatInput := typed\<rparr>)"
| r_pickPlatform: "reachable s \<Longrightarrow> reachable (s\<lparr>streamPlatform := platform\<rparr>)"
| r_viewerTick: "reachable s \<Longrightarrow> reachable (s\<lparr>streamer := viewerTick change (streamer s)\<rparr>)"
| r_chat: "reachable s \<Longrightarrow> op \<noteq> ChatCleanup \<Longrightarrow> reachable (s\<lparr>chat := chat_step e op (chat s)\<rparr>)"
| r_transcript: "reachable s \<Longrightarrow> tr_op \<noteq> TCleanup \<Longrightarrow>
     reachable (s\<lparr>ctl_transcript := transcript_step e tr_op (ctl_transcript s)\<rparr>)"
| r_ai: "reachable s \<Longrightarrow> aop \<noteq> ACleanup \<Longrightarrow> reachable (s\<lparr>ai := ai_step e aop (ai s)\<rparr>)"

subsection \<open>Sample values\<close>

definition env0 :: env where
  "env0 = \<lparr>now = 1000, randomId = ''k3j9x2m1q'', storageOk = True, confirmOk = True,
     mediaOk = True, mediaStartOk = True, acquire = Inr 1\<rparr>"

definition hello_world :: "segment list" where
  "hello_world =
     [\<lparr>seg_id = ''seg_1'', seg_text = ''Hello'', seg_timestamp = 500, startTime = 0,
       endTime = 500, seg_confidence = 1\<rparr>,
      \<lparr>seg_id = ''seg_2'', seg_text = ''world'', seg_timestamp = 1000, startTime = 600,
       endTime = 1000, seg_confidence = 1\<rparr>]"

definition ai_keyed :: ai where
  "ai_keyed = new_AI\<lparr>settings := (settings new_AI)\<lparr>apiKey := ''sk-demo''\<rparr>\<rparr>"

text \<open>An utterance heard at confidence 0.5, below the default threshold 0.7.\<close>

definition faint :: recog_event where
  "faint = \<lparr>resultIndex = 0,
     results = [\<lparr>isFinal = True, alt_transcript = ''Start Recording'', alt_confidence = 1 / 2\<rparr>]\<rparr>"

definition numbered :: "nat \<Rightarrow> message" where
  "numbered i = \<lparr>msg_id = ''msg_'' @ toString_nat i, msg_text = ''hi'', msg_timestamp = int i,
     msg_user = ''You'', msg_type = ''user'', isModerator = False\<rparr>"

definition entry :: "nat \<Rightarrow> log_entry" where
  "entry i = \<lparr>log_action = Str ''toggleMute'', originalTranscript = ''mute'',
     log_confidence = Undefined, log_type = ''fuzzy'', log_timestamp = int i\<rparr>"

definition greeting :: message where
  "greeting = \<lparr>msg_id = ''msg_1'', msg_text = ''hi'', msg_timestamp = 1, msg_user = ''You'',
     msg_type = ''user'', isModerator = False\<rparr>"

text \<open>A fresh session, nobody signed in, nothing stored.\<close>

definition fresh :: studio where
  "fresh = new_StreamStudio None None True"

text \<open>A session signed in from storage.\<close>

definition signed_in :: studio where
  "signed_in = new_StreamStudio (Some ''ann@example.org'') None True"

text \<open>A session that went live on Twitch with a stream key saved in the settings.\<close>

definition live :: studio where
  "live =
     startStreaming env0
       ((state_of (saveSettings env0 (\<lambda>st. st\<lparr>streamKey := ''live_key_1''\<rparr>) (\<lambda>x. x)
           (selectSource env0 ''camera'' fresh)))\<lparr>streamPlatform := ''twitch''\<rparr>)"

text \<open>
  A transcription run that committed one segment and was stopped, the engine having ended;
  and a transcript of one hundred committed segments.
\<close>

definition recorded :: transcript_obj where
  "recorded =
     Transcript_onend (Transcript_stop env0 (addTranscriptSegment env0 ''Hello''
       (Transcript_start env0 (Transcript_init True new_Transcript))))"

definition long_transcript :: transcript_obj where
  "long_transcript = new_Transcript\<lparr>transcript := replicate 100 (hd hello_world)\<rparr>"

text \<open>
  A chat whose one message is also its stored snapshot, and the surroundings of a call
  in which the write to storage fails.
\<close>

definition saved_chat :: chat where
  "saved_chat = new_Chat\<lparr>messages := [numbered 0], chatStore := Some [numbered 0]\<rparr>"

definition env_full :: env where
  "env_full = env0\<lparr>storageOk := False\<rparr>"

section \<open>Properties\<close>

subsection \<open>Auxiliary facts\<close>

lemma drop_one: "drop (Suc 0) xs = tl xs"
  by (simp add: drop_Suc)

lemma slice_last_append: "slice_last n (slice_last n xs @ ys) = slice_last n (xs @ ys)"
  by (cases "length xs \<le> n") (auto simp: slice_last_def ac_simps)

lemma trim_sample: "trim ''next'' = ''next''"
  by (simp add: trim_def is_ws_def)

lemma addMessage_messages:
  "length (messages c) \<le> maxMessages c \<Longrightarrow>
   messages (addMessage e m c) = slice_last (maxMessages c) (messages c @ [m])"
proof (cases "length (messages c) = maxMessages c")
  case True
  then have "length (messages c @ [m]) - maxMessages c = Suc 0" by simp
  then have "slice_last (maxMessages c) (messages c @ [m]) = tl (messages c @ [m])"
    unfolding slice_last_def by (simp only: drop_one)
  with True show ?thesis by (simp add: addMessage_def saveChatHistory_def Let_def)
next
  case False
  assume "length (messages c) \<le> maxMessages c"
  with False show ?thesis by (simp add: addMessage_def saveChatHistory_def Let_def slice_last_def)
qed

lemma addMessage_max: "maxMessages (addMessage e m c) = maxMessages c"
  by (simp add: addMessage_def saveChatHistory_def Let_def)

lemma addMessages_messages:
  "length (messages c) \<le> maxMessages c \<Longrightarrow>
   messages (addMessages ems c) = slice_last (maxMessages c) (messages c @ map snd ems)"
proof (induction ems arbitrary: c)
  case Nil
  then show ?case by (simp add: addMessages_def slice_last_def)
next
  case (Cons em ems)
  obtain e m where em: "em = (e, m)" by (cases em)
  let ?c = "addMessage e m c"
  have len: "length (messages ?c) \<le> maxMessages ?c"
    using Cons.prems by (simp add: addMessage_messages addMessage_max slice_last_def)
  have "messages (addMessages (em # ems) c) = messages (addMessages ems ?c)"
    by (simp add: addMessages_def em)
  also have "\<dots> = slice_last (maxMessages c) (messages ?c @ map snd ems)"
    using Cons.IH [OF len] by (simp add: addMessage_max)
  also have "\<dots> = slice_last (maxMessages c) (messages c @ map snd (em # ems))"
    using Cons.prems by (simp add: addMessage_messages slice_last_append em)
  finally show ?case .
qed

lemma logCommand_history:
  "length (commandHistory a) \<le> maxHistorySize a \<Longrightarrow>
   commandHistory (logCommand e x a) = slice_last (maxHistorySize a) (commandHistory a @ [x])"
proof (cases "length (commandHistory a) = maxHistorySize a")
  case True
  then have "length (commandHistory a @ [x]) - maxHistorySize a = Suc 0" by simp
  then have "slice_last (maxHistorySize a) (commandHistory a @ [x]) = tl (commandHistory a @ [x])"
    unfolding slice_last_def by (simp only: drop_one)
  with True show ?thesis by (simp add: logCommand_def saveCommandHistory_def Let_def)
next
  case False
  assume "length (commandHistory a) \<le> maxHistorySize a"
  with False show ?thesis
    by (simp add: logCommand_def saveCommandHistory_def Let_def slice_last_def)
qed

lemma logCommand_max: "maxHistorySize (logCommand e x a) = maxHistorySize a"
  by (simp add: logCommand_def saveCommandHistory_def Let_def)

lemma logCommands_history:
  "length (commandHistory a) \<le> maxHistorySize a \<Longrightarrow>
   commandHistory (logCommands ees a) =
     slice_last (maxHistorySize a) (commandHistory a @ map snd ees)"
proof (induction ees arbitrary: a)
  case Nil
  then show ?case by (simp add: logCommands_def slice_last_def)
next
  case (Cons ex ees)
  obtain e x where ex: "ex = (e, x)" by (cases ex)
  let ?a = "logCommand e x a"
  have len: "length (commandHistory ?a) \<le> maxHistorySize ?a"
    using Cons.prems by (simp add: logCommand_history logCommand_max slice_last_def)
  have "commandHistory (logCommands (ex # ees) a) = commandHistory (logCommands ees ?a)"
    by (simp add: logCommands_def ex)
  also have "\<dots> = slice_last (maxHistorySize a) (commandHistory ?a @ map snd ees)"
    using Cons.IH [OF len] by (simp add: logCommand_max)
  also have "\<dots> = slice_last (maxHistorySize a) (commandHistory a @ map snd (ex # ees))"
    using Cons.prems by (simp add: logCommand_history slice_last_append ex)
  finally show ?case .
qed

lemma addTranscriptSegment_appends:
  "trim txt \<noteq> [] \<Longrightarrow>
   \<exists>seg. transcript (addTranscriptSegment e txt t) = transcript t @ [seg] \<and>
         seg_text seg = trim txt"
  by (simp add: addTranscriptSegment_def saveTranscript_def Let_def)

lemma tl_map_upt: "tl (map f [0..<Suc n]) @ [f (Suc n)] = map f [1..<Suc (Suc n)]"
proof -
  have "tl [0..<Suc n] = [1..<Suc n]" by (simp add: tl_upt)
  then have "tl (map f [0..<Suc n]) = map f [1..<Suc n]"
    using map_tl [of f "[0..<Suc n]"] by simp
  then show ?thesis by simp
qed

subsection \<open>Appending to the bounded logs\<close>

text \<open>
  Claim C5, as the code has it. The chat log starts with capacity 100 and the command log
  with capacity 50. Appending to a chat log that holds as many messages as its capacity
  gives the old messages without the oldest, followed by the new one; a run of appends
  to an empty chat log leaves the newest messages, as many as the capacity, in the order
  they came. The same holds of the command log. The transcript has no capacity: appending
  a segment with visible text keeps every earlier segment and puts the new one last.
\<close>

theorem fifo_eviction:
  "maxMessages new_Chat = 100 \<and> maxHistorySize new_AI = 50 \<and>
   (0 < maxMessages c \<and> length (messages c) = maxMessages c \<longrightarrow>
      messages (addMessage e m c) = tl (messages c) @ [m]) \<and>
   (messages c0 = [] \<longrightarrow>
      messages (addMessages ems c0) = slice_last (maxMessages c0) (map snd ems)) \<and>
   (0 < maxHistorySize a \<and> length (commandHistory a) = maxHistorySize a \<longrightarrow>
      commandHistory (logCommand e1 x a) = tl (commandHistory a) @ [x]) \<and>
   (commandHistory a0 = [] \<longrightarrow>
      commandHistory (logCommands ees a0) = slice_last (maxHistorySize a0) (map snd ees)) \<and>
   (trim txt \<noteq> [] \<longrightarrow>
      (\<exists>seg. transcript (addTranscriptSegment e2 txt t) = transcript t @ [seg] \<and>
             seg_text seg = trim txt))"
proof -
  have 0: "maxMessages new_Chat = 100 \<and> maxHistorySize new_AI = 50"
    by (simp add: new_Chat_def new_AI_def)
  have 1: "0 < maxMessages c \<and> length (messages c) = maxMessages c \<longrightarrow>
      messages (addMessage e m c) = tl (messages c) @ [m]"
    by (cases "messages c") (auto simp: addMessage_def saveChatHistory_def Let_def)
  have 2: "messages c0 = [] \<longrightarrow>
      messages (addMessages ems c0) = slice_last (maxMessages c0) (map snd ems)"
    using addMessages_messages [of c0 ems] by simp
  have 3: "0 < maxHistorySize a \<and> length (commandHistory a) = maxHistorySize a \<longrightarrow>
      commandHistory (logCommand e1 x a) = tl (commandHistory a) @ [x]"
    by (cases "commandHistory a") (auto simp: logCommand_def saveCommandHistory_def Let_def)
  have 4: "commandHistory a0 = [] \<longrightarrow>
      commandHistory (logCommands ees a0) = slice_last (maxHistorySize a0) (map snd ees)"
    using logCommands_history [of a0 ees] by simp
  have 5: "trim txt \<noteq> [] \<longrightarrow>
      (\<exists>seg. transcript (addTranscriptSegment e2 txt t) = transcript t @ [seg] \<and>
             seg_text seg = trim txt)"
    using addTranscriptSegment_appends by blast
  from 0 1 2 3 4 5 show ?thesis by blast
qed

text \<open>
  The theorem at a chat log of messages 0 to 99, at 101 appends to the new chat log, at a
  command log of entries 0 to 49, at 51 appends to the new command log, and at the
  transcript of one hundred segments.
\<close>

theorem fifo_eviction_witness:
  "messages (addMessage env0 (numbered 100) (new_Chat\<lparr>messages := map numbered [0..<100]\<rparr>)) =
     map numbered [1..<101] \<and>
   messages (addMessages (map (\<lambda>i. (env0, numbered i)) [0..<101]) new_Chat) =
     map numbered [1..<101] \<and>
   commandHistory (logCommand env0 (entry 50) (new_AI\<lparr>commandHistory := map entry [0..<50]\<rparr>)) =
     map entry [1..<51] \<and>
   commandHistory (logCommands (map (\<lambda>i. (env0, entry i)) [0..<51]) new_AI) =
     map entry [1..<51] \<and>
   length (transcript (addTranscriptSegment env0 ''next'' long_transcript)) = 101"
proof -
  note t = fifo_eviction [of "new_Chat\<lparr>messages := map numbered [0..<100]\<rparr>" env0 "numbered 100"
      new_Chat "map (\<lambda>i. (env0, numbered i)) [0..<101]"
      "new_AI\<lparr>commandHistory := map entry [0..<50]\<rparr>" env0 "entry 50"
      new_AI "map (\<lambda>i. (env0, entry i)) [0..<51]" "''next''" env0 long_transcript]
  have n100: "(100::nat) = Suc 99" and n101: "(101::nat) = Suc (Suc 99)"
    and n50: "(50::nat) = Suc 49" and n51: "(51::nat) = Suc (Suc 49)" by simp_all
  have m: "tl (map numbered [0..<100]) @ [numbered 100] = map numbered [1..<101]"
    unfolding n100 n101 by (rule tl_map_upt)
  have h: "tl (map entry [0..<50]) @ [entry 50] = map entry [1..<51]"
    unfolding n50 n51 by (rule tl_map_upt)
  have 1: "messages (addMessage env0 (numbered 100) (new_Chat\<lparr>messages := map numbered [0..<100]\<rparr>)) =
     map numbered [1..<101]"
    using t m by (simp add: new_Chat_def)
  have 2: "messages (addMessages (map (\<lambda>i. (env0, numbered i)) [0..<101]) new_Chat) =
     map numbered [1..<101]"
    using t by (simp add: new_Chat_def slice_last_def o_def drop_map)
  have 3: "commandHistory (logCommand env0 (entry 50) (new_AI\<lparr>commandHistory := map entry [0..<50]\<rparr>)) =
     map entry [1..<51]"
    using t h by (simp add: new_AI_def)
  have 4: "commandHistory (logCommands (map (\<lambda>i. (env0, entry i)) [0..<51]) new_AI) =
     map entry [1..<51]"
    using t by (simp add: new_AI_def slice_last_def o_def drop_map)
  have 5: "length (transcript (addTranscriptSegment env0 ''next'' long_transcript)) = 101"
    using t by (auto simp: trim_sample long_transcript_def)
  from 1 2 3 4 5 show ?thesis by blast
qed

text \<open>
  Against C5 as stated: the transcript holding one hundred segments holds one hundred and
  one after the next segment, the oldest still first. Nothing was evicted.
\<close>

theorem transcript_never_evicts:
  "length (transcript long_transcript) = 100 \<and>
   length (transcript (addTranscriptSegment env0 ''next'' long_transcript)) = 101 \<and>
   hd (transcript (addTranscriptSegment env0 ''next'' long_transcript)) =
     hd (transcript long_transcript)"
  by (simp add: addTranscriptSegment_def saveTranscript_def trim_sample long_transcript_def
        Let_def hd_append)

subsection \<open>What the chat writes to storage\<close>

text \<open>
  Claim C10, as the code has it. An append whose write to storage goes through stores the
  last \<open>min 50 n\<close> of the \<open>n\<close> messages then in memory, in their order. An append whose
  write fails leaves the stored snapshot as it was. In memory an append puts the message
  last and then drops the oldest one if the capacity is exceeded. With the capacity of 100,
  which is that of a new chat, the memory
  holds after the append the newest 100 of the old messages and the new one, so it
  holds \<open>min 100\<close> of their number; and when that is 100 exactly 50 messages, the older
  ones, are in memory and not in the snapshot just stored.
\<close>

theorem persisted_snapshot_last_50:
  "(storageOk e \<longrightarrow>
      chatStore (addMessage e m c) =
        Some (drop (length (messages (addMessage e m c)) -
                    min 50 (length (messages (addMessage e m c))))
               (messages (addMessage e m c)))) \<and>
   (\<not> storageOk e \<longrightarrow> chatStore (addMessage e m c) = chatStore c) \<and>
   maxMessages new_Chat = 100 \<and>
   messages (addMessage e m c) =
     (if length (messages c @ [m]) > maxMessages c then tl (messages c @ [m])
      else messages c @ [m]) \<and>
   (maxMessages c = 100 \<and> length (messages c) \<le> 100 \<longrightarrow>
      messages (addMessage e m c) = drop (length (messages c) + 1 - 100) (messages c @ [m]) \<and>
      length (messages (addMessage e m c)) = min 100 (length (messages c) + 1)) \<and>
   (storageOk e \<and> maxMessages c = 100 \<and> length (messages c) = 100 \<longrightarrow>
      length (messages (addMessage e m c)) - length (the (chatStore (addMessage e m c))) = 50)"
proof -
  have 1: "storageOk e \<longrightarrow>
      chatStore (addMessage e m c) =
        Some (drop (length (messages (addMessage e m c)) -
                    min 50 (length (messages (addMessage e m c))))
               (messages (addMessage e m c)))"
    by (auto simp: addMessage_def saveChatHistory_def Let_def slice_last_def min_def)
  have 2: "\<not> storageOk e \<longrightarrow> chatStore (addMessage e m c) = chatStore c"
    by (simp add: addMessage_def saveChatHistory_def Let_def)
  have 3: "maxMessages c = 100 \<and> length (messages c) \<le> 100 \<longrightarrow>
      messages (addMessage e m c) = drop (length (messages c) + 1 - 100) (messages c @ [m]) \<and>
      length (messages (addMessage e m c)) = min 100 (length (messages c) + 1)"
    using addMessage_messages [of c e m] by (auto simp: slice_last_def)
  have 4: "storageOk e \<and> maxMessages c = 100 \<and> length (messages c) = 100 \<longrightarrow>
      length (messages (addMessage e m c)) - length (the (chatStore (addMessage e m c))) = 50"
    using 1 3 by auto
  have 5: "maxMessages new_Chat = 100" by (simp add: new_Chat_def)
  have 6: "messages (addMessage e m c) =
     (if length (messages c @ [m]) > maxMessages c then tl (messages c @ [m])
      else messages c @ [m])"
    by (simp add: addMessage_def saveChatHistory_def Let_def)
  from 1 2 3 4 5 6 show ?thesis by blast
qed

text \<open>
  The theorem at a chat of messages 0 to 99 whose write goes through: memory then holds
  messages 1 to 100 and the snapshot messages 51 to 100. And at the chat \<open>saved_chat\<close> whose
  write fails: the snapshot stays.
\<close>

theorem persisted_snapshot_last_50_witness:
  "storageOk env0 \<and> maxMessages (new_Chat\<lparr>messages := map numbered [0..<100]\<rparr>) = 100 \<and>
   length (messages (new_Chat\<lparr>messages := map numbered [0..<100]\<rparr>)) = 100 \<and>
   messages (addMessage env0 (numbered 100) (new_Chat\<lparr>messages := map numbered [0..<100]\<rparr>)) =
     map numbered [1..<101] \<and>
   chatStore (addMessage env0 (numbered 100) (new_Chat\<lparr>messages := map numbered [0..<100]\<rparr>)) =
     Some (map numbered [51..<101]) \<and>
   \<not> storageOk env_full \<and>
   chatStore (addMessage env_full (numbered 1) saved_chat) = chatStore saved_chat"
proof -
  define c where "c = new_Chat\<lparr>messages := map numbered [0..<100]\<rparr>"
  note t = persisted_snapshot_last_50 [of env0 "numbered 100" c]
  note u = persisted_snapshot_last_50 [of env_full "numbered 1" saved_chat]
  have ok: "storageOk env0" by (simp add: env0_def)
  have p: "maxMessages c = 100" "length (messages c) = 100"
    by (simp_all add: c_def new_Chat_def)
  have "messages (addMessage env0 (numbered 100) c) =
        drop (length (messages c) + 1 - 100) (messages c @ [numbered 100])"
    using t [THEN conjunct2, THEN conjunct2, THEN conjunct2, THEN conjunct2, THEN conjunct1]
      p by simp
  also have "\<dots> = map numbered [1..<100] @ [numbered 100]"
    by (simp add: c_def drop_map)
  also have "\<dots> = map numbered [1..<101]"
  proof -
    have "[1..<101] = [1..<100] @ [100::nat]" by code_simp
    then show ?thesis by simp
  qed
  finally have ms: "messages (addMessage env0 (numbered 100) c) = map numbered [1..<101]" .
  have "chatStore (addMessage env0 (numbered 100) c) =
        Some (drop (100 - min 50 100) (map numbered [1..<101]))"
    using t [THEN conjunct1] ok by (simp add: ms)
  then have st: "chatStore (addMessage env0 (numbered 100) c) = Some (map numbered [51..<101])"
    by (simp add: drop_map)
  have no: "\<not> storageOk env_full" by (simp add: env_full_def)
  have stale: "chatStore (addMessage env_full (numbered 1) saved_chat) = chatStore saved_chat"
    using u no by blast
  from ok p ms st no stale show ?thesis unfolding c_def by blast
qed

text \<open>
  Against C10 as stated: the write of an append fails, memory holds messages 0 and 1, and
  the stored snapshot is still message 0 alone, not the last two entries of memory.
\<close>

theorem persisted_snapshot_stale:
  "messages (addMessage env_full (numbered 1) saved_chat) = [numbered 0, numbered 1] \<and>
   chatStore (addMessage env_full (numbered 1) saved_chat) = Some [numbered 0]"
  by (simp add: addMessage_def saveChatHistory_def saved_chat_def new_Chat_def env_full_def
        env0_def Let_def)

subsection \<open>The connection test\<close>

text \<open>
  Claim C9. For every platform, key, URL, random draw and streamer, \<open>testConnection\<close>
  leaves the streamer as it was (\<open>isStreaming\<close>, \<open>viewerCount\<close>, settings and platform table
  included), returns success exactly when the draw exceeds 0.3, and returns a message
  that is not empty. (A draw is a double, and a double exceeds the double written \<open>0.3\<close>
  exactly when it exceeds 3/10.) This is the method run by itself; callbacks that fire while its
  timer is pending are other operations.
\<close>

theorem testConnection_read_only:
  "snd (testConnection platform key url random s) = s \<and>
   fst (fst (testConnection platform key url random s)) = (random > 3 / 10) \<and>
   snd (fst (testConnection platform key url random s)) \<noteq> []"
  by (simp add: testConnection_def Let_def)

subsection \<open>The confidence threshold\<close>

text \<open>
  Claim C7. When the last result of a recognition event is final and its confidence is
  strictly below the \<open>sensitivity\<close> setting, the handler returns without an exception and
  leaves the interpreter as it was: the command history, the dispatched events, the
  feedback shown and the requests to the classifier are all unchanged. No command was
  looked up, none was executed, none was logged.
\<close>

theorem confidence_gating:
  "results event \<noteq> [] \<Longrightarrow> isFinal (last (results event)) \<Longrightarrow>
   alt_confidence (last (results event)) < sensitivity (settings a) \<Longrightarrow>
   AI_handleRecognitionResult e r event a = Inr a"
  by (simp add: AI_handleRecognitionResult_def Let_def)

text \<open>The theorem at \<open>faint\<close>, a command heard at confidence 0.5 by the new interpreter.\<close>

theorem confidence_gating_witness:
  "results faint \<noteq> [] \<and> isFinal (last (results faint)) \<and>
   alt_confidence (last (results faint)) < sensitivity (settings new_AI) \<and>
   AI_handleRecognitionResult env0 Failed faint new_AI = Inr new_AI"
proof -
  have h: "results faint \<noteq> []" "isFinal (last (results faint))"
    "alt_confidence (last (results faint)) < sensitivity (settings new_AI)"
    by (simp_all add: faint_def new_AI_def double_0_7_def)
  from h confidence_gating [OF h, of env0 Failed] show ?thesis by simp
qed

text \<open>The same utterance heard at confidence 0.9375 is executed: one event, one log entry.\<close>

lemma loud_command_dispatched:
  "dispatched (state_of (AI_handleRecognitionResult env0 Failed
      (faint\<lparr>results := [\<lparr>isFinal = True, alt_transcript = ''Start Recording'',
                             alt_confidence = 15 / 16\<rparr>]\<rparr>) new_AI)) = [''ai-start-recording''] \<and>
   length (commandHistory (state_of (AI_handleRecognitionResult env0 Failed
      (faint\<lparr>results := [\<lparr>isFinal = True, alt_transcript = ''Start Recording'',
                             alt_confidence = 15 / 16\<rparr>]\<rparr>) new_AI))) = 1"
  by code_simp

subsection \<open>Actions the classifier returns\<close>

lemma event_of_vocabulary: "event_of action = None \<longleftrightarrow> action \<notin> Str ` set vocabulary"
  by (auto simp: event_of_def vocabulary_def)

lemma logCommand_frame:
  "dispatched (logCommand e x a) = dispatched a \<and> warned (logCommand e x a) = warned a \<and>
   feedback (logCommand e x a) = feedback a \<and> requests (logCommand e x a) = requests a"
  by (simp add: logCommand_def saveCommandHistory_def Let_def)

lemma logCommand_last:
  "0 < maxHistorySize a \<Longrightarrow>
   commandHistory (logCommand e x a) \<noteq> [] \<and> last (commandHistory (logCommand e x a)) = x"
  by (cases "commandHistory a") (auto simp: logCommand_def saveCommandHistory_def Let_def)

lemma logCommand_exact:
  "commandHistory (logCommand e x a) =
     (if length (commandHistory a @ [x]) > maxHistorySize a then tl (commandHistory a @ [x])
      else commandHistory a @ [x])"
  by (simp add: logCommand_def saveCommandHistory_def Let_def)

lemma executeCommand_unknown:
  assumes "event_of (cd_action cd) = None"
  shows "dispatched (executeCommand e cd u a) = dispatched a"
    and "warned (executeCommand e cd u a) = warned a @ [cd_action cd]"
    and "feedback (executeCommand e cd u a) =
         feedback a @ [(feedbackMessage (cd_action cd), cd_confidence cd)]"
    and "commandHistory (executeCommand e cd u a) =
         commandHistory (logCommand e \<lparr>log_action = cd_action cd, originalTranscript = u,
           log_confidence = cd_confidence cd, log_type = cd_type cd, log_timestamp = now e\<rparr> a)"
  using assms by (simp_all add: executeCommand_def showCommandFeedback_def Let_def logCommand_frame)

text \<open>
  Claim C8, as the code has it. For a reply of the classifier whose action is outside the
  vocabulary no event is dispatched. If an API key is set and the action is truthy (a
  string that is not empty, say), the action is appended to the command history with the
  utterance (the oldest entry leaving if the history is then over its capacity) and
  reported once by \<open>console.warn\<close> as unknown; \<open>showCommandFeedback\<close> is
  then called once, with that action. If the action is falsy (absent, \<open>null\<close>, the empty
  string, zero or \<open>false\<close>) the reply is dropped and nothing but the request itself is
  recorded. Without an API key the classifier is not asked and nothing changes.
\<close>

theorem unknown_action_not_dispatched:
  "action \<notin> Str ` set vocabulary \<Longrightarrow>
   (let a' = processNaturalLanguageCommand e (Replied action confidence reason) utterance a
    in dispatched a' = dispatched a \<and>
       (apiKey (settings a) \<noteq> [] \<and> truthy action \<longrightarrow>
          commandHistory a' =
            (let h = commandHistory a @
                   [\<lparr>log_action = action, originalTranscript = utterance,
                     log_confidence = (if truthy confidence then confidence else Num (1 / 2)),
                     log_type = ''ai'', log_timestamp = now e\<rparr>]
             in if length h > maxHistorySize a then tl h else h) \<and>
          (0 < maxHistorySize a \<longrightarrow>
             commandHistory a' \<noteq> [] \<and> log_action (last (commandHistory a')) = action \<and>
             originalTranscript (last (commandHistory a')) = utterance) \<and>
          warned a' = warned a @ [action] \<and>
          feedback a' = feedback a @
            [(feedbackMessage action, if truthy confidence then confidence else Num (1 / 2))]) \<and>
       (apiKey (settings a) \<noteq> [] \<and> \<not> truthy action \<longrightarrow>
          a' = a\<lparr>requests := requests a @ [utterance]\<rparr>) \<and>
       (apiKey (settings a) = [] \<longrightarrow> a' = a))"
proof -
  assume "action \<notin> Str ` set vocabulary"
  then have ev: "event_of action = None" by (simp add: event_of_vocabulary)
  define a' where
    "a' = processNaturalLanguageCommand e (Replied action confidence reason) utterance a"
  have d: "dispatched a' = dispatched a"
    by (simp add: a'_def processNaturalLanguageCommand_def Let_def executeCommand_unknown ev)
  have x: "apiKey (settings a) \<noteq> [] \<and> truthy action \<longrightarrow>
          commandHistory a' =
            (let h = commandHistory a @
                   [\<lparr>log_action = action, originalTranscript = utterance,
                     log_confidence = (if truthy confidence then confidence else Num (1 / 2)),
                     log_type = ''ai'', log_timestamp = now e\<rparr>]
             in if length h > maxHistorySize a then tl h else h) \<and>
          warned a' = warned a @ [action] \<and>
          feedback a' = feedback a @
            [(feedbackMessage action, if truthy confidence then confidence else Num (1 / 2))]"
    by (simp add: a'_def processNaturalLanguageCommand_def Let_def executeCommand_unknown ev
          logCommand_exact)
  have l: "apiKey (settings a) \<noteq> [] \<and> truthy action \<longrightarrow>
          (0 < maxHistorySize a \<longrightarrow>
             commandHistory a' \<noteq> [] \<and> log_action (last (commandHistory a')) = action \<and>
             originalTranscript (last (commandHistory a')) = utterance)"
    by (simp add: a'_def processNaturalLanguageCommand_def Let_def executeCommand_unknown ev
          logCommand_last)
  have f: "apiKey (settings a) \<noteq> [] \<and> \<not> truthy action \<longrightarrow>
          a' = a\<lparr>requests := requests a @ [utterance]\<rparr>"
    by (simp add: a'_def processNaturalLanguageCommand_def Let_def)
  have n: "apiKey (settings a) = [] \<longrightarrow> a' = a"
    by (simp add: a'_def processNaturalLanguageCommand_def)
  from d x l f n show ?thesis unfolding Let_def a'_def by blast
qed

text \<open>The theorem at the reply \<open>{action: "dance"}\<close> to an interpreter with an API key.\<close>

theorem unknown_action_not_dispatched_witness:
  "Str ''dance'' \<notin> Str ` set vocabulary \<and>
   apiKey (settings ai_keyed) \<noteq> [] \<and> truthy (Str ''dance'') \<and> 0 < maxHistorySize ai_keyed \<and>
   dispatched (processNaturalLanguageCommand env0 (Replied (Str ''dance'') (Num 1) Null)
      ''do a dance'' ai_keyed) = [] \<and>
   log_action (last (commandHistory (processNaturalLanguageCommand env0
      (Replied (Str ''dance'') (Num 1) Null) ''do a dance'' ai_keyed))) = Str ''dance'' \<and>
   warned (processNaturalLanguageCommand env0 (Replied (Str ''dance'') (Num 1) Null)
      ''do a dance'' ai_keyed) = [Str ''dance'']"
proof -
  have h: "Str ''dance'' \<notin> Str ` set vocabulary" by (simp add: vocabulary_def)
  show ?thesis
    using h unknown_action_not_dispatched [OF h, of env0 "Num 1" Null "''do a dance''" ai_keyed]
    by (simp add: ai_keyed_def new_AI_def Let_def)
qed

text \<open>
  Against C8 as stated: the reply \<open>{action: ""}\<close> has an action outside the vocabulary,
  and it is not logged: the command history stays empty, nothing is stored and nothing is
  reported by \<open>console.warn\<close>.
\<close>

theorem falsy_action_not_logged:
  "Str [] \<notin> Str ` set vocabulary \<and>
   commandHistory (processNaturalLanguageCommand env0 (Replied (Str []) (Num 1) Null)
      ''dance'' ai_keyed) = [] \<and>
   warned (processNaturalLanguageCommand env0 (Replied (Str []) (Num 1) Null)
      ''dance'' ai_keyed) = [] \<and>
   aiStore (processNaturalLanguageCommand env0 (Replied (Str []) (Num 1) Null)
      ''dance'' ai_keyed) = None"
  by (simp add: processNaturalLanguageCommand_def ai_keyed_def new_AI_def vocabulary_def)

subsection \<open>The subtitle export\<close>

lemma srt_hello_world:
  "srt_from (\<lambda>_. 0) 0 hello_world =
     ''1\<newline>00:00:00,000 --> 00:00:00,500\<newline>Hello\<newline>\<newline>2\<newline>00:00:00,600 --> 00:00:01,000\<newline>world\<newline>\<newline>''"
  by code_simp

lemma mod_div_int: "0 < b \<Longrightarrow> 0 \<le> c \<Longrightarrow> ((a::int) mod (b * c)) div b = (a div b) mod c"
  by (simp add: zmod_zmult2_eq)

text \<open>The getters of a date, from the milliseconds into the local day.\<close>

lemma day_fields:
  fixes L :: int
  shows "(L div 3600000) mod 24 = (L mod 86400000) div 3600000"
    and "(L div 60000) mod 60 = ((L mod 86400000) div 60000) mod 60"
    and "(L div 1000) mod 60 = ((L mod 86400000) div 1000) mod 60"
    and "L mod 1000 = (L mod 86400000) mod 1000"
proof -
  show "(L div 3600000) mod 24 = (L mod 86400000) div 3600000"
    using mod_div_int [of 3600000 24 L] by simp
  have "((L mod 86400000) div 60000) mod 60 = ((L div 60000) mod 1440) mod 60"
    using mod_div_int [of 60000 1440 L] by simp
  then show "(L div 60000) mod 60 = ((L mod 86400000) div 60000) mod 60"
    by (simp add: mod_mod_cancel)
  have "((L mod 86400000) div 1000) mod 60 = ((L div 1000) mod 86400) mod 60"
    using mod_div_int [of 1000 86400 L] by simp
  then show "(L div 1000) mod 60 = ((L mod 86400000) div 1000) mod 60"
    by (simp add: mod_mod_cancel)
  show "L mod 1000 = (L mod 86400000) mod 1000"
    by (simp add: mod_mod_cancel)
qed

lemma getters_of_day:
  "getHours tz ts = nat (((ts + tz ts * 60000) mod 86400000) div 3600000)"
  "getMinutes tz ts = nat (((ts + tz ts * 60000) mod 86400000) div 60000 mod 60)"
  "getSeconds tz ts = nat (((ts + tz ts * 60000) mod 86400000) div 1000 mod 60)"
  "getMilliseconds tz ts = nat (((ts + tz ts * 60000) mod 86400000) mod 1000)"
  unfolding getHours_def getMinutes_def getSeconds_def getMilliseconds_def localMs_def
  by (simp_all only: day_fields [of "ts + tz ts * 60000", symmetric])

lemma formatSRTTime_local:
  "validDate ts \<Longrightarrow>
   formatSRTTime tz ts =
     (let d = (ts + tz ts * 60000) mod 86400000
      in padStart 2 (toString_nat (nat (d div 3600000))) @ '':'' @
         padStart 2 (toString_nat (nat (d div 60000 mod 60))) @ '':'' @
         padStart 2 (toString_nat (nat (d div 1000 mod 60))) @ '','' @
         padStart 3 (toString_nat (nat (d mod 1000))))"
  unfolding formatSRTTime_def Let_def by (simp only: getters_of_day if_True)

lemma srt_from_entries:
  "srt_from tz i segs =
     concat (map (\<lambda>(k, seg). toString_nat (k + 1) @ newline @
                   formatSRTTime tz (startTime seg) @ '' --> '' @
                   formatSRTTime tz (endTime seg) @ newline @
                   seg_text seg @ newline @ newline)
              (enumerate i segs))"
  by (induction segs arbitrary: i) simp_all

text \<open>
  Claim C4, as the code has it. In a time zone at offset zero from UTC the export of the
  two segments \<open>Hello\<close> (0 ms to 500 ms) and \<open>world\<close> (600 ms to 1000 ms) is the text below:
  two entries numbered 1 and 2 whose fields 00:00:00,000, 00:00:00,500, 00:00:00,600 and
  00:00:01,000 are the boundaries, in order; whatever else the transcript object holds,
  its buffer of text in progress included. In any one time zone two transcript objects
  with the same committed segments export the same text. The export is one entry for each
  committed segment, in order: its number counted from 1, the start and the end as
  \<open>formatSRTTime\<close> prints them, and the text. And \<open>formatSRTTime\<close> prints a boundary
  \<open>ts\<close> as the hours, minutes, seconds and milliseconds of \<open>d\<close>, the boundary shifted
  by the zone's offset at that instant and taken within its day of 86400000 ms.
\<close>

theorem exportAsSRT_fidelity:
  "exportAsSRT (\<lambda>_. 0) (t\<lparr>transcript := hello_world\<rparr>) =
     ''1\<newline>00:00:00,000 --> 00:00:00,500\<newline>Hello\<newline>\<newline>2\<newline>00:00:00,600 --> 00:00:01,000\<newline>world\<newline>\<newline>'' \<and>
   (\<forall>t1 t2. transcript t1 = transcript t2 \<longrightarrow> exportAsSRT tz t1 = exportAsSRT tz t2) \<and>
   exportAsSRT tz t =
     concat (map (\<lambda>(k, seg). toString_nat (k + 1) @ newline @
                   formatSRTTime tz (startTime seg) @ '' --> '' @
                   formatSRTTime tz (endTime seg) @ newline @
                   seg_text seg @ newline @ newline)
              (enumerate 0 (transcript t))) \<and>
   (\<forall>ts. validDate ts \<longrightarrow>
      formatSRTTime tz ts =
        (let d = (ts + tz ts * 60000) mod 86400000
         in padStart 2 (toString_nat (nat (d div 3600000))) @ '':'' @
            padStart 2 (toString_nat (nat (d div 60000 mod 60))) @ '':'' @
            padStart 2 (toString_nat (nat (d div 1000 mod 60))) @ '','' @
            padStart 3 (toString_nat (nat (d mod 1000)))))"
proof -
  have 1: "exportAsSRT (\<lambda>_. 0) (t\<lparr>transcript := hello_world\<rparr>) =
     ''1\<newline>00:00:00,000 --> 00:00:00,500\<newline>Hello\<newline>\<newline>2\<newline>00:00:00,600 --> 00:00:01,000\<newline>world\<newline>\<newline>''"
    by (simp add: exportAsSRT_def srt_hello_world)
  have 2: "\<forall>t1 t2. transcript t1 = transcript t2 \<longrightarrow> exportAsSRT tz t1 = exportAsSRT tz t2"
    by (simp add: exportAsSRT_def)
  have 3: "exportAsSRT tz t =
     concat (map (\<lambda>(k, seg). toString_nat (k + 1) @ newline @
                   formatSRTTime tz (startTime seg) @ '' --> '' @
                   formatSRTTime tz (endTime seg) @ newline @
                   seg_text seg @ newline @ newline)
              (enumerate 0 (transcript t)))"
    unfolding exportAsSRT_def by (rule srt_from_entries)
  from 1 2 3 formatSRTTime_local show ?thesis by blast
qed

text \<open>
  The theorem at two transcript objects that differ in the buffer of text in progress,
  and at the boundary 600 ms in the zone one hour east of UTC.
\<close>

theorem exportAsSRT_fidelity_witness:
  "transcript (new_Transcript\<lparr>transcript := hello_world, currentSegment := ''wor''\<rparr>) =
     transcript (new_Transcript\<lparr>transcript := hello_world\<rparr>) \<and>
   exportAsSRT (\<lambda>_. 60) (new_Transcript\<lparr>transcript := hello_world, currentSegment := ''wor''\<rparr>) =
     exportAsSRT (\<lambda>_. 60) (new_Transcript\<lparr>transcript := hello_world\<rparr>) \<and>
   exportAsSRT (\<lambda>_. 0) (new_Transcript\<lparr>transcript := hello_world\<rparr>) =
     ''1\<newline>00:00:00,000 --> 00:00:00,500\<newline>Hello\<newline>\<newline>2\<newline>00:00:00,600 --> 00:00:01,000\<newline>world\<newline>\<newline>'' \<and>
   validDate 600 \<and> formatSRTTime (\<lambda>_. 60) 600 = ''01:00:00,600''"
proof -
  note c = exportAsSRT_fidelity [of new_Transcript "\<lambda>_. 60"]
  have 0: "transcript (new_Transcript\<lparr>transcript := hello_world, currentSegment := ''wor''\<rparr>) =
     transcript (new_Transcript\<lparr>transcript := hello_world\<rparr>)" by simp
  have 1: "exportAsSRT (\<lambda>_. 60) (new_Transcript\<lparr>transcript := hello_world, currentSegment := ''wor''\<rparr>) =
           exportAsSRT (\<lambda>_. 60) (new_Transcript\<lparr>transcript := hello_world\<rparr>)"
    by (rule c [THEN conjunct2, THEN conjunct1, rule_format]) (rule 0)
  have v: "validDate 600" by (simp add: validDate_def)
  have "formatSRTTime (\<lambda>_. 60) 600 =
        (let d = (600 + 60 * 60000) mod 86400000
         in padStart 2 (toString_nat (nat (d div 3600000))) @ '':'' @
            padStart 2 (toString_nat (nat (d div 60000 mod 60))) @ '':'' @
            padStart 2 (toString_nat (nat (d div 1000 mod 60))) @ '','' @
            padStart 3 (toString_nat (nat (d mod 1000))))"
    by (rule c [THEN conjunct2, THEN conjunct2, THEN conjunct2, rule_format, OF v])
  also have "\<dots> = ''01:00:00,600''" by code_simp
  finally have 2: "formatSRTTime (\<lambda>_. 60) 600 = ''01:00:00,600''" .
  from 0 1 v 2 c [THEN conjunct1] show ?thesis by blast
qed

text \<open>
  Against C4 as stated: in the zone one hour east of UTC the same two segments export
  with the fields 01:00:00,000 to 01:00:01,000, which are not the boundaries 0 ms to
  1000 ms.
\<close>

theorem exportAsSRT_shifts_with_zone:
  "exportAsSRT (\<lambda>_. 60) (new_Transcript\<lparr>transcript := hello_world\<rparr>) =
     ''1\<newline>01:00:00,000 --> 01:00:00,500\<newline>Hello\<newline>\<newline>2\<newline>01:00:00,600 --> 01:00:01,000\<newline>world\<newline>\<newline>''"
  by code_simp

subsection \<open>A failing stop of the stream\<close>

lemma startRecording_streaming:
  "isStreaming (startRecording e s) = isStreaming s \<and> streamer (startRecording e s) = streamer s"
  by (auto simp: startRecording_def requireAuth_def showAuthModal_def showSourceModal_def
        showError_def updateStatus_def updateUI_def Let_def split: option.splits sum.splits)

lemma call_deferred_streaming:
  "isStreaming (state_of (call_deferred e d s)) = isStreaming s \<and>
   streamer (state_of (call_deferred e d s)) = streamer s"
  by (auto simp: call_deferred_def state_of_def startRecording_streaming Let_def
        split: deferred.splits sum.splits)

lemma handleAuth_streaming:
  "isStreaming (state_of (handleAuth notice e email password s)) = isStreaming s \<and>
   streamer (state_of (handleAuth notice e email password s)) = streamer s"
proof (cases "trim email = [] \<or> password = []")
  case True
  then show ?thesis by (auto simp: handleAuth_def state_of_def showError_def)
next
  case False
  let ?s1 = "hideAuthModal (saveAuth e (trim email) s)"
  have s1: "isStreaming ?s1 = isStreaming s \<and> streamer ?s1 = streamer s"
    by (simp add: hideAuthModal_def saveAuth_def Let_def)
  have r: "isStreaming (state_of (resumePostAuthAction e ?s1)) = isStreaming s \<and>
           streamer (state_of (resumePostAuthAction e ?s1)) = streamer s"
  proof (cases "postAuthAction ?s1")
    case None
    then show ?thesis using s1 by (simp add: resumePostAuthAction_def state_of_def)
  next
    case (Some d)
    then show ?thesis
      using s1 call_deferred_streaming [of e d "?s1\<lparr>postAuthAction := None, invoked := invoked ?s1 @ [d]\<rparr>"]
      by (simp add: resumePostAuthAction_def)
  qed
  from False have "handleAuth notice e email password s =
     (case resumePostAuthAction e ?s1 of Inl x \<Rightarrow> Inl x
      | Inr s1 \<Rightarrow> Inr (s1\<lparr>notifications := notifications s1 @ [(notice, ''success'')]\<rparr>))"
    by (simp add: handleAuth_def)
  with r show ?thesis by (auto simp: state_of_def split: sum.splits)
qed

lemma selectSource_streaming:
  "isStreaming (selectSource e ty s) = isStreaming s \<and> streamer (selectSource e ty s) = streamer s"
  by (auto simp: selectSource_def startRecording_streaming showError_def updateUI_def
        hideSourceModal_def Let_def split: sum.splits)

lemma reachable_flags_agree: "reachable s \<Longrightarrow> isStreaming s = st_isStreaming (streamer s)"
proof (induction rule: reachable.induct)
  case (r_init storedAuth storedChat speech)
  then show ?case by (simp add: new_StreamStudio_def new_Streamer_def)
next
  case (r_startRecording s e)
  then show ?case by (simp add: startRecording_streaming)
next
  case (r_stopRecording s e)
  then show ?case
    by (auto simp: stopRecording_def showError_def updateStatus_def updateUI_def Let_def
          split: sum.splits)
next
  case (r_startStreaming s e)
  then show ?case
    by (auto simp: startStreaming_def Streamer_start_def showError_def updateStatus_def
          updateUI_def Let_def split: option.splits if_splits)
next
  case (r_stopStreaming s e)
  then show ?case
    by (auto simp: stopStreaming_def Streamer_stop_def showError_def updateStatus_def
          updateUI_def Let_def split: if_splits)
next
  case (r_selectSource s e sourceType)
  then show ?case by (simp add: selectSource_streaming)
next
  case (r_sendChatMessage s e)
  then show ?case
    by (simp add: sendChatMessage_def requireAuth_def showAuthModal_def Let_def)
next
  case (r_toggleAICommands s e enabled)
  then show ?case
    by (auto simp: toggleAICommands_def requireAuth_def showAuthModal_def state_of_def Let_def
          split: sum.splits)
next
  case (r_signIn s e email password)
  then show ?case by (simp add: handleAuthSignIn_def handleAuth_streaming)
next
  case (r_signUp s e email password)
  then show ?case by (simp add: handleAuthSignUp_def handleAuth_streaming)
next
  case (r_logout s)
  then show ?case by (simp add: logout_def clearAuth_def Let_def)
next
  case (r_saveSettings s e streaming aiSettings)
  then show ?case
    by (simp add: saveSettings_def showSuccess_def Streamer_updateSettings_def state_of_def)
next
  case (r_viewerTick s change)
  then show ?case by (simp add: viewerTick_def)
qed (simp_all add: showSourceModal_def hideSourceModal_def showAuthModal_def hideAuthModal_def)

text \<open>What a failing stop leaves behind, in any state of the record.\<close>

lemma stopStreaming_failure_frame:
  "Streamer_stop (streamer s) = Inl (err, st) \<Longrightarrow>
     isStreaming (stopStreaming e s) = isStreaming s \<and>
     alerts (stopStreaming e s) = alerts s @ [''Error: Failed to stop streaming''] \<and>
     notifications (stopStreaming e s) = notifications s"
  by (auto simp: stopStreaming_def Streamer_stop_def showError_def split: if_splits)

text \<open>
  Claim C1. In every state of a session, when \<open>Streamer.stop()\<close> throws on a stop request,
  the controller's \<open>isStreaming\<close> is \<open>False\<close> once \<open>stopStreaming\<close> has returned, and
  exactly one notice was given: the alert \<open>Error: Failed to stop streaming\<close>, with no other
  alert and no notification. The catch branch does not assign the flag; it is \<open>False\<close>
  because \<open>stop()\<close> throws only when the streamer is not streaming, and in the states of a
  session the controller's flag agrees with the streamer's.
\<close>

theorem stopStreaming_failure_idle:
  "reachable s \<Longrightarrow> Streamer_stop (streamer s) = Inl (err, st) \<Longrightarrow>
     \<not> isStreaming (stopStreaming e s) \<and>
     alerts (stopStreaming e s) = alerts s @ [''Error: Failed to stop streaming''] \<and>
     notifications (stopStreaming e s) = notifications s"
proof -
  assume r: "reachable s" and f: "Streamer_stop (streamer s) = Inl (err, st)"
  from f have "\<not> st_isStreaming (streamer s)"
    by (auto simp: Streamer_stop_def split: if_splits)
  with reachable_flags_agree [OF r] have "\<not> isStreaming s" by simp
  with stopStreaming_failure_frame [OF f, of e] show ?thesis by simp
qed

text \<open>The theorem at a second stop request, after the stream went live and was stopped.\<close>

theorem stopStreaming_failure_idle_witness:
  "reachable (stopStreaming env0 live) \<and>
   Streamer_stop (streamer (stopStreaming env0 live)) =
     Inl (''No streaming in progress'', streamer (stopStreaming env0 live)) \<and>
   \<not> isStreaming (stopStreaming env0 (stopStreaming env0 live)) \<and>
   alerts (stopStreaming env0 (stopStreaming env0 live)) =
     alerts (stopStreaming env0 live) @ [''Error: Failed to stop streaming'']"
proof -
  have "\<not> st_isStreaming (streamer (stopStreaming env0 live))" by code_simp
  then have h: "Streamer_stop (streamer (stopStreaming env0 live)) =
     Inl (''No streaming in progress'', streamer (stopStreaming env0 live))"
    by (simp add: Streamer_stop_def)
  have r: "reachable (stopStreaming env0 live)"
    unfolding live_def fresh_def by (intro reachable.intros)
  from h r stopStreaming_failure_idle [OF r h, of env0] show ?thesis by blast
qed

text \<open>The stream of \<open>live\<close> is on, and the first stop request ends it without an alert.\<close>

lemma live_then_stopped:
  "isStreaming live \<and> \<not> isStreaming (stopStreaming env0 live) \<and>
   alerts (stopStreaming env0 live) = [''Success: Settings saved successfully'']"
  by code_simp

subsection \<open>The deferred start of a recording\<close>

lemma startRecording_no_source:
  assumes "isAuthenticated s" "currentSource s = None"
  shows "startRecording e s =
         s\<lparr>startRecordingCalls := startRecordingCalls s + 1, startAfterSource := True, sourcesModal := True\<rparr>"
  using assms by (simp add: startRecording_def isAuthenticated_def showSourceModal_def Let_def)

lemma startRecording_with_source:
  assumes "isAuthenticated s" "currentSource s = Some src"
  shows "startRecordingCalls (startRecording e s) = startRecordingCalls s + 1"
    and "rec_startCalls (recorder (startRecording e s)) = rec_startCalls (recorder s) + 1"
    and "startAfterSource (startRecording e s) = startAfterSource s"
    and "currentSource (startRecording e s) = Some src"
    and "auth (startRecording e s) = auth s"
    and "isRecording (startRecording e s) =
         (if mediaOk e \<and> mediaStartOk e \<and> \<not> rec_isRecording (recorder s) then True
          else isRecording s)"
  using assms
  by (auto simp: startRecording_def isAuthenticated_def Recorder_start_def showError_def
        updateStatus_def updateUI_def Let_def split: option.splits)

lemma selectSource_ok:
  assumes "acquire e = Inr st" "ty \<in> {''camera'', ''screen'', ''window'', ''browser''}"
  shows "selectSource e ty s =
     (let s1 = updateUI e (hideSourceModal (s\<lparr>recorder := (recorder s)\<lparr>stream := Some st\<rparr>, currentSource := Some st\<rparr>))
      in if startAfterSource s1 then startRecording e (s1\<lparr>startAfterSource := False\<rparr>) else s1)"
  using assms by (simp add: selectSource_def Recorder_selectSource_def)

lemma selectSource_idle:
  assumes "\<not> startAfterSource s"
  shows "startRecordingCalls (selectSource e ty s) = startRecordingCalls s"
    and "rec_startCalls (recorder (selectSource e ty s)) = rec_startCalls (recorder s)"
    and "\<not> startAfterSource (selectSource e ty s)"
  using assms
  by (auto simp: selectSource_def Recorder_selectSource_def showError_def updateUI_def
        hideSourceModal_def Let_def split: sum.splits)

text \<open>
  Claim C2, as the code has it, for the controller with the sign-in gate. In a session
  where somebody is signed in and no source is selected, \<open>startRecording\<close> sets the
  pending flag \<open>startAfterSource\<close>, opens the source dialog, leaves \<open>isRecording\<close> alone and
  does not touch the recorder, so \<open>Recorder.start\<close> is not called. A \<open>selectSource\<close> that
  then succeeds sets the source, clears the flag whatever becomes of the retry, and calls
  \<open>startRecording\<close> once more, which calls \<open>Recorder.start\<close> once. A further
  \<open>selectSource\<close>, succeeding or not, calls neither.
\<close>

theorem deferred_start_retry:
  assumes "isAuthenticated s" and "currentSource s = None"
    and "acquire e2 = Inr st" and "ty \<in> {''camera'', ''screen'', ''window'', ''browser''}"
  shows "(let s1 = startRecording e1 s; s2 = selectSource e2 ty s1; s3 = selectSource e3 ty3 s2
          in startAfterSource s1 \<and> sourcesModal s1 \<and> currentSource s1 = None \<and>
             isRecording s1 = isRecording s \<and> recorder s1 = recorder s \<and>
             currentSource s2 = Some st \<and> \<not> startAfterSource s2 \<and>
             startRecordingCalls s2 = startRecordingCalls s1 + 1 \<and>
             rec_startCalls (recorder s2) = rec_startCalls (recorder s1) + 1 \<and>
             \<not> startAfterSource s3 \<and>
             startRecordingCalls s3 = startRecordingCalls s2 \<and>
             rec_startCalls (recorder s3) = rec_startCalls (recorder s2))"
proof -
  let ?s1 = "startRecording e1 s"
  let ?m = "updateUI e2 (hideSourceModal (?s1\<lparr>recorder := (recorder ?s1)\<lparr>stream := Some st\<rparr>, currentSource := Some st\<rparr>))"
  let ?s2 = "selectSource e2 ty ?s1"
  have s1: "?s1 = s\<lparr>startRecordingCalls := startRecordingCalls s + 1, startAfterSource := True, sourcesModal := True\<rparr>"
    using assms(1,2) by (rule startRecording_no_source)
  have m1: "startAfterSource ?m" "isAuthenticated (?m\<lparr>startAfterSource := False\<rparr>)"
     "currentSource (?m\<lparr>startAfterSource := False\<rparr>) = Some st"
     "startRecordingCalls ?m = startRecordingCalls ?s1"
     "rec_startCalls (recorder ?m) = rec_startCalls (recorder ?s1)"
    using assms(1) unfolding s1 by (simp_all add: updateUI_def hideSourceModal_def isAuthenticated_def)
  have s2: "?s2 = startRecording e2 (?m\<lparr>startAfterSource := False\<rparr>)"
    using selectSource_ok [OF assms(3,4), of ?s1] m1(1) by (simp add: Let_def)
  have a: "startAfterSource ?s1 \<and> sourcesModal ?s1 \<and> currentSource ?s1 = None \<and>
             isRecording ?s1 = isRecording s \<and> recorder ?s1 = recorder s"
    unfolding s1 using assms(2) by simp
  have b: "currentSource ?s2 = Some st" "\<not> startAfterSource ?s2"
      "startRecordingCalls ?s2 = startRecordingCalls ?s1 + 1"
      "rec_startCalls (recorder ?s2) = rec_startCalls (recorder ?s1) + 1"
    unfolding s2 using startRecording_with_source [OF m1(2,3), of e2] m1(4,5) by simp_all
  have c: "\<not> startAfterSource (selectSource e3 ty3 ?s2)"
     "startRecordingCalls (selectSource e3 ty3 ?s2) = startRecordingCalls ?s2"
     "rec_startCalls (recorder (selectSource e3 ty3 ?s2)) = rec_startCalls (recorder ?s2)"
    using selectSource_idle [OF b(2)] by simp_all
  from a b c show ?thesis by (simp add: Let_def)
qed

text \<open>The theorem at the session signed in from storage, choosing the camera, then the screen.\<close>

theorem deferred_start_retry_witness:
  "isAuthenticated signed_in \<and> currentSource signed_in = None \<and> acquire env0 = Inr 1 \<and>
   ''camera'' \<in> {''camera'', ''screen'', ''window'', ''browser''} \<and>
   startAfterSource (startRecording env0 signed_in) \<and>
   recorder (startRecording env0 signed_in) = recorder signed_in \<and>
   \<not> startAfterSource (selectSource env0 ''camera'' (startRecording env0 signed_in)) \<and>
   rec_startCalls (recorder (selectSource env0 ''camera'' (startRecording env0 signed_in))) =
     rec_startCalls (recorder (startRecording env0 signed_in)) + 1 \<and>
   rec_startCalls (recorder (selectSource env0 ''screen''
       (selectSource env0 ''camera'' (startRecording env0 signed_in)))) =
     rec_startCalls (recorder (selectSource env0 ''camera'' (startRecording env0 signed_in)))"
proof -
  have h: "isAuthenticated signed_in" "currentSource signed_in = None" "acquire env0 = Inr 1"
    "''camera'' \<in> {''camera'', ''screen'', ''window'', ''browser''}"
    by (simp_all add: signed_in_def new_StreamStudio_def isAuthenticated_def env0_def)
  from h deferred_start_retry [OF h, of env0 env0 "''screen''"] show ?thesis
    by (simp add: Let_def)
qed

text \<open>
  Against C2 as stated. With the sign-in gate and nobody signed in, \<open>startRecording\<close>
  without a source opens the sign-in dialog instead: the pending flag stays clear and the
  \<open>selectSource\<close> that follows starts nothing. The plain controller of \<open>app.js\<close> has no
  pending flag at all: it alerts and the \<open>selectSource\<close> that follows starts nothing.
\<close>

theorem deferred_start_needs_sign_in:
  "currentSource fresh = None \<and>
   \<not> startAfterSource (startRecording env0 fresh) \<and>
   postAuthAction (startRecording env0 fresh) = Some DeferStartRecording \<and>
   startRecordingCalls (selectSource env0 ''camera'' (startRecording env0 fresh)) =
     startRecordingCalls (startRecording env0 fresh) \<and>
   \<not> isRecording (selectSource env0 ''camera'' (startRecording env0 fresh)) \<and>
   currentSource signed_in = None \<and>
   \<not> startAfterSource (startRecording_app env0 signed_in) \<and>
   alerts (startRecording_app env0 signed_in) = [''Error: Please select a video source first''] \<and>
   startRecordingCalls (selectSource_app env0 ''camera'' (startRecording_app env0 signed_in)) =
     startRecordingCalls (startRecording_app env0 signed_in) \<and>
   \<not> isRecording (selectSource_app env0 ''camera'' (startRecording_app env0 signed_in))"
  by code_simp

subsection \<open>The sign-in gate\<close>

lemma attempt_unauth:
  assumes "\<not> isAuthenticated s" "is_attempt g"
  shows "postAuthAction (attempt e g s) = Some (closure_of g)"
    and "invoked (attempt e g s) = invoked s"
    and "auth (attempt e g s) = auth s"
  using assms
  by (auto simp: attempt_def closure_of_def is_attempt_def startRecording_def sendChatMessage_def
        toggleAICommands_def requireAuth_def showAuthModal_def isAuthenticated_def state_of_def
        Let_def split: gated.splits)

lemma startRecording_auth:
  assumes "isAuthenticated s"
  shows "postAuthAction (startRecording e s) = postAuthAction s"
    and "invoked (startRecording e s) = invoked s"
    and "auth (startRecording e s) = auth s"
  using assms
  by (auto simp: startRecording_def isAuthenticated_def Recorder_start_def showError_def
        showSourceModal_def updateStatus_def updateUI_def Let_def split: option.splits)

lemma call_deferred_auth:
  assumes "isAuthenticated s"
  shows "postAuthAction (state_of (call_deferred e d s)) = postAuthAction s"
    and "invoked (state_of (call_deferred e d s)) = invoked s"
    and "auth (state_of (call_deferred e d s)) = auth s"
  using assms startRecording_auth [OF assms, of e]
  by (auto simp: call_deferred_def state_of_def setEnabled_def recognition_start_def Let_def
        split: deferred.splits sum.splits)

lemma handleAuth_ok:
  assumes "trim email \<noteq> []" "password \<noteq> []"
  shows "postAuthAction (state_of (handleAuth notice e email password s)) = None"
    and "invoked (state_of (handleAuth notice e email password s)) =
         invoked s @ (case postAuthAction s of None \<Rightarrow> [] | Some d \<Rightarrow> [d])"
    and "isAuthenticated (state_of (handleAuth notice e email password s))"
proof -
  let ?s1 = "hideAuthModal (saveAuth e (trim email) s)"
  have a1: "isAuthenticated ?s1" "postAuthAction ?s1 = postAuthAction s" "invoked ?s1 = invoked s"
    using assms by (simp_all add: hideAuthModal_def saveAuth_def isAuthenticated_def Let_def)
  let ?r = "resumePostAuthAction e ?s1"
  have r: "postAuthAction (state_of ?r) = None \<and>
           invoked (state_of ?r) = invoked s @ (case postAuthAction s of None \<Rightarrow> [] | Some d \<Rightarrow> [d]) \<and>
           isAuthenticated (state_of ?r)"
  proof (cases "postAuthAction s")
    case None
    then show ?thesis using a1 by (simp add: resumePostAuthAction_def state_of_def)
  next
    case (Some d)
    let ?s2 = "?s1\<lparr>postAuthAction := None, invoked := invoked ?s1 @ [d]\<rparr>"
    have au: "isAuthenticated ?s2" using a1(1) by (simp add: isAuthenticated_def)
    have "?r = call_deferred e d ?s2"
      using Some a1(2) by (simp add: resumePostAuthAction_def)
    then show ?thesis
      using call_deferred_auth [OF au, of e d] a1 Some au
      by (simp add: isAuthenticated_def)
  qed
  have h: "handleAuth notice e email password s =
     (case ?r of Inl x \<Rightarrow> Inl x | Inr s1 \<Rightarrow> Inr (s1\<lparr>notifications := notifications s1 @ [(notice, ''success'')]\<rparr>))"
    using assms by (simp add: handleAuth_def)
  show "postAuthAction (state_of (handleAuth notice e email password s)) = None"
    and "invoked (state_of (handleAuth notice e email password s)) =
         invoked s @ (case postAuthAction s of None \<Rightarrow> [] | Some d \<Rightarrow> [d])"
    and "isAuthenticated (state_of (handleAuth notice e email password s))"
    using r unfolding h by (auto simp: state_of_def isAuthenticated_def split: sum.splits)
qed

lemma handleAuth_idle:
  assumes "postAuthAction s = None"
  shows "postAuthAction (state_of (handleAuth notice e email password s)) = None"
    and "invoked (state_of (handleAuth notice e email password s)) = invoked s"
  using assms
  by (auto simp: handleAuth_def resumePostAuthAction_def state_of_def showError_def
        hideAuthModal_def saveAuth_def Let_def)

text \<open>
  Claim C6. Take a session where nobody is signed in and two attempts at gated actions,
  one after the other. Afterwards the pending action is the closure of the second attempt
  and nothing has been called. A sign-in or sign-up with an e-mail and a password (both are
  \<open>handleAuth\<close>, with their own notice) then calls exactly that closure, once, and leaves
  no pending action, whether or not the closure throws; the closure of the first attempt
  is never called. One more submission of the form calls nothing.
\<close>

theorem auth_gate_overwrite:
  assumes "\<not> isAuthenticated s" and "is_attempt g1" and "is_attempt g2"
    and "trim email \<noteq> []" and "password \<noteq> []"
  shows "(let s2 = attempt e2 g2 (attempt e1 g1 s);
              s3 = state_of (handleAuth notice e3 email password s2);
              s4 = state_of (handleAuth notice' e4 email' password' s3)
          in postAuthAction s2 = Some (closure_of g2) \<and> invoked s2 = invoked s \<and>
             postAuthAction s3 = None \<and> invoked s3 = invoked s @ [closure_of g2] \<and>
             postAuthAction s4 = None \<and> invoked s4 = invoked s3)"
proof -
  let ?s1 = "attempt e1 g1 s"
  let ?s2 = "attempt e2 g2 ?s1"
  let ?s3 = "state_of (handleAuth notice e3 email password ?s2)"
  have u1: "\<not> isAuthenticated ?s1" "invoked ?s1 = invoked s"
    using attempt_unauth [OF assms(1,2), of e1] assms(1) by (simp_all add: isAuthenticated_def)
  have a: "postAuthAction ?s2 = Some (closure_of g2)" "invoked ?s2 = invoked s"
    using attempt_unauth [OF u1(1) assms(3), of e2] u1(2) by simp_all
  have b: "postAuthAction ?s3 = None" "invoked ?s3 = invoked s @ [closure_of g2]"
    using handleAuth_ok [OF assms(4,5), of notice e3 ?s2] a by simp_all
  have c: "postAuthAction (state_of (handleAuth notice' e4 email' password' ?s3)) = None"
     "invoked (state_of (handleAuth notice' e4 email' password' ?s3)) = invoked ?s3"
    using handleAuth_idle [OF b(1)] by simp_all
  from a b c show ?thesis by (simp add: Let_def)
qed

text \<open>
  The theorem at the fresh session: the record button, then the chat text \<open>hello\<close>, then
  a sign-in. Only the chat message is sent.
\<close>

theorem auth_gate_overwrite_witness:
  "\<not> isAuthenticated fresh \<and> is_attempt TryStartRecording \<and> is_attempt (TrySendChat ''hello'') \<and>
   trim ''ann@example.org'' \<noteq> [] \<and> ''pw'' \<noteq> [] \<and>
   postAuthAction (attempt env0 (TrySendChat ''hello'') (attempt env0 TryStartRecording fresh)) =
     Some (DeferSendChat ''hello'') \<and>
   invoked (state_of (handleAuthSignIn env0 ''ann@example.org'' ''pw''
       (attempt env0 (TrySendChat ''hello'') (attempt env0 TryStartRecording fresh)))) =
     [DeferSendChat ''hello''] \<and>
   postAuthAction (state_of (handleAuthSignIn env0 ''ann@example.org'' ''pw''
       (attempt env0 (TrySendChat ''hello'') (attempt env0 TryStartRecording fresh)))) = None"
proof -
  have h: "\<not> isAuthenticated fresh" "is_attempt TryStartRecording"
    "is_attempt (TrySendChat ''hello'')" "trim ''ann@example.org'' \<noteq> []" "''pw'' \<noteq> []"
    by (simp_all add: fresh_def new_StreamStudio_def isAuthenticated_def is_attempt_def
          trim_def is_ws_def)
  have c: "closure_of (TrySendChat ''hello'') = DeferSendChat ''hello''"
    by (simp add: closure_of_def trim_def is_ws_def)
  have i: "invoked fresh = []" by (simp add: fresh_def new_StreamStudio_def)
  from h auth_gate_overwrite [OF h, of env0 env0 "''Signed in''" env0 "''Signed in''" env0 "[]" "[]"]
  show ?thesis
    by (simp add: Let_def c i handleAuthSignIn_def)
qed

subsection \<open>When the logs are cleared\<close>

lemma addMessage_nonempty: "messages c \<noteq> [] \<Longrightarrow> messages (addMessage e m c) \<noteq> []"
  by (cases "messages c") (auto simp: addMessage_def saveChatHistory_def Let_def)

lemma addSystemMessage_nonempty:
  "messages c \<noteq> [] \<Longrightarrow> messages (addSystemMessage e txt c) \<noteq> []"
  by (simp add: addSystemMessage_def addMessage_nonempty)

lemma chat_step_keeps:
  assumes "op \<notin> {ClearChat, ChatCleanup, LoadChatHistory}" "messages c \<noteq> []"
  shows "messages (chat_step e op c) \<noteq> []"
  using assms
  by (cases op)
     (simp_all add: sendMessage_def viewerResponse_def addModeratorMessage_def blockUser_def
        unblockUser_def addModerator_def removeModerator_def toggleVisibility_def
        addMessage_nonempty addSystemMessage_nonempty Let_def)

lemma addTranscriptSegment_prefix:
  "prefix (transcript t) (transcript (addTranscriptSegment e txt t))"
  by (simp add: addTranscriptSegment_def saveTranscript_def Let_def)

lemma saveTranscript_transcript: "transcript (saveTranscript e t) = transcript t"
  by (simp add: saveTranscript_def)

lemma Transcript_stop_prefix: "prefix (transcript t) (transcript (Transcript_stop e t))"
proof -
  have "prefix (transcript (t\<lparr>isActive := False\<rparr>))
          (transcript (addTranscriptSegment e (currentSegment t) (t\<lparr>isActive := False\<rparr>)))"
    by (rule addTranscriptSegment_prefix)
  then show ?thesis
    by (simp add: Transcript_stop_def Let_def saveTranscript_transcript)
qed

lemma Transcript_result_prefix:
  "prefix (transcript t) (transcript (Transcript_handleRecognitionResult e event t))"
proof -
  obtain i f where c: "collect (drop (resultIndex event) (results event)) = (i, f)"
    by (cases "collect (drop (resultIndex event) (results event))")
  have "prefix (transcript (t\<lparr>currentSegment := i\<rparr>))
          (transcript (addTranscriptSegment e f (t\<lparr>currentSegment := i\<rparr>)))"
    by (rule addTranscriptSegment_prefix)
  moreover have "prefix (transcript t) (transcript (addTranscriptSegment e f t))"
    by (rule addTranscriptSegment_prefix)
  ultimately show ?thesis
    by (simp add: Transcript_handleRecognitionResult_def c Let_def)
qed

lemma transcript_step_keeps:
  assumes "op \<notin> {TStart, TLoad}"
  shows "prefix (transcript t) (transcript (transcript_step e op t))"
  using assms
  by (cases op)
     (auto simp: Transcript_stop_prefix Transcript_result_prefix addTranscriptSegment_prefix
        Transcript_cleanup_def saveTranscript_transcript Transcript_onend_def
        Transcript_restart_def recognition_start_def state_of_def)

lemma logCommand_nonempty: "commandHistory a \<noteq> [] \<Longrightarrow> commandHistory (logCommand e x a) \<noteq> []"
  by (cases "commandHistory a") (auto simp: logCommand_def saveCommandHistory_def Let_def)

lemma executeCommand_nonempty:
  "commandHistory a \<noteq> [] \<Longrightarrow> commandHistory (executeCommand e cd u a) \<noteq> []"
  by (auto simp: executeCommand_def showCommandFeedback_def triggerEvent_def Let_def
        logCommand_nonempty split: option.splits)

lemma processNL_nonempty:
  "commandHistory a \<noteq> [] \<Longrightarrow> commandHistory (processNaturalLanguageCommand e r u a) \<noteq> []"
proof -
  assume a: "commandHistory a \<noteq> []"
  then have "commandHistory (a\<lparr>requests := requests a @ [u]\<rparr>) \<noteq> []" by simp
  then have "\<And>cd. commandHistory (executeCommand e cd u (a\<lparr>requests := requests a @ [u]\<rparr>)) \<noteq> []"
    by (rule executeCommand_nonempty)
  with a show ?thesis
    by (auto simp: processNaturalLanguageCommand_def Let_def split: reply.splits)
qed

lemma processCommand_nonempty:
  "commandHistory a \<noteq> [] \<Longrightarrow> commandHistory (processCommand e r u a) \<noteq> []"
  by (auto simp: processCommand_def executeCommand_nonempty processNL_nonempty split: option.splits)

lemma ai_step_keeps:
  assumes "op \<noteq> ALoad" "commandHistory a \<noteq> []"
  shows "commandHistory (ai_step e op a) \<noteq> []"
  using assms
  by (cases op)
     (auto simp: AI_handleRecognitionResult_def processCommand_nonempty executeCommand_nonempty
        logCommand_nonempty setEnabled_def recognition_start_def AI_onstart_def AI_onend_def
        AI_restart_def AI_cleanup_def saveCommandHistory_def state_of_def Let_def)

text \<open>
  Claim C3, as the code has it. The three logs are empty in a newly constructed object;
  \<open>Chat.init\<close> then replaces the messages by the stored snapshot when there is one. Of the
  operations of the chat, only \<open>clearChat\<close>, \<open>cleanup\<close> and the load from storage can leave
  a chat that had messages without any. Every operation of the transcript other than
  \<open>start\<close> and the load from storage keeps all committed segments, in place, at the front
  of the transcript. Every operation of the interpreter other than the load from storage
  leaves a command history that had entries with some. \<open>Transcript.start\<close> discards the
  committed segments whenever it does start, that is when recognition is available and
  the transcript is not active, and keeps them otherwise.
\<close>

theorem logs_cleared_only_by:
  "messages new_Chat = [] \<and> transcript new_Transcript = [] \<and> commandHistory new_AI = [] \<and>
   (\<forall>e op c. op \<notin> {ClearChat, ChatCleanup, LoadChatHistory} \<and> messages c \<noteq> [] \<longrightarrow>
       messages (chat_step e op c) \<noteq> []) \<and>
   (\<forall>e op t. op \<notin> {TStart, TLoad} \<longrightarrow>
       prefix (transcript t) (transcript (transcript_step e op t))) \<and>
   (\<forall>e op a. op \<noteq> ALoad \<and> commandHistory a \<noteq> [] \<longrightarrow> commandHistory (ai_step e op a) \<noteq> []) \<and>
   (\<forall>e t. transcript (Transcript_start e t) =
       (if t_recognition t \<and> \<not> isActive t then [] else transcript t)) \<and>
   (\<forall>c. messages (Chat_init c) = (case chatStore c of None \<Rightarrow> messages c | Some h \<Rightarrow> h))"
proof -
  have 0: "messages new_Chat = [] \<and> transcript new_Transcript = [] \<and> commandHistory new_AI = []"
    by (simp add: new_Chat_def new_Transcript_def new_AI_def)
  have 1: "\<forall>e t. transcript (Transcript_start e t) =
       (if t_recognition t \<and> \<not> isActive t then [] else transcript t)"
    by (simp add: Transcript_start_def recognition_start_def Let_def)
  have 2: "\<forall>c. messages (Chat_init c) = (case chatStore c of None \<Rightarrow> messages c | Some h \<Rightarrow> h)"
    by (simp add: Chat_init_def loadChatHistory_def split: option.splits)
  from 0 1 2 chat_step_keeps transcript_step_keeps ai_step_keeps show ?thesis by blast
qed

text \<open>
  The theorem at a chat with one message that is sent another, at the stop of a recorded
  transcript, and at a command history with one entry that is given another.
\<close>

theorem logs_cleared_only_by_witness:
  "SendMessage ''hello'' \<notin> {ClearChat, ChatCleanup, LoadChatHistory} \<and>
   messages (new_Chat\<lparr>messages := [greeting]\<rparr>) \<noteq> [] \<and>
   messages (chat_step env0 (SendMessage ''hello'') (new_Chat\<lparr>messages := [greeting]\<rparr>)) \<noteq> [] \<and>
   TStop \<notin> {TStart, TLoad} \<and>
   prefix (transcript recorded) (transcript (transcript_step env0 TStop recorded)) \<and>
   ALog (entry 1) \<noteq> ALoad \<and> commandHistory (new_AI\<lparr>commandHistory := [entry 0]\<rparr>) \<noteq> [] \<and>
   commandHistory (ai_step env0 (ALog (entry 1)) (new_AI\<lparr>commandHistory := [entry 0]\<rparr>)) \<noteq> []"
proof -
  note t = logs_cleared_only_by
  have c: "SendMessage ''hello'' \<notin> {ClearChat, ChatCleanup, LoadChatHistory} \<and>
           messages (new_Chat\<lparr>messages := [greeting]\<rparr>) \<noteq> []" by simp
  have c': "messages (chat_step env0 (SendMessage ''hello'') (new_Chat\<lparr>messages := [greeting]\<rparr>)) \<noteq> []"
    by (rule t [THEN conjunct2, THEN conjunct2, THEN conjunct2, THEN conjunct1, rule_format])
       (rule c)
  have r: "TStop \<notin> {TStart, TLoad}" by simp
  have r': "prefix (transcript recorded) (transcript (transcript_step env0 TStop recorded))"
    by (rule t [THEN conjunct2, THEN conjunct2, THEN conjunct2, THEN conjunct2, THEN conjunct1,
          rule_format]) (rule r)
  have a: "ALog (entry 1) \<noteq> ALoad \<and> commandHistory (new_AI\<lparr>commandHistory := [entry 0]\<rparr>) \<noteq> []"
    by simp
  have a': "commandHistory (ai_step env0 (ALog (entry 1)) (new_AI\<lparr>commandHistory := [entry 0]\<rparr>)) \<noteq> []"
    by (rule t [THEN conjunct2, THEN conjunct2, THEN conjunct2, THEN conjunct2, THEN conjunct2,
          THEN conjunct1, rule_format]) (rule a)
  from c c' r r' a a' show ?thesis by blast
qed

text \<open>
  Against C3 as stated: a transcription run committed the segment \<open>Hello\<close> and was
  stopped; starting the next run leaves no committed segment. And a chat initialised over
  a stored snapshot of one message starts with that message, not empty.
\<close>

theorem Transcript_start_discards_segments:
  "map seg_text (transcript recorded) = [''Hello''] \<and>
   transcript (Transcript_start env0 recorded) = [] \<and>
   messages (Chat_init (new_Chat\<lparr>chatStore := Some [greeting]\<rparr>)) = [greeting]"
  by code_simp

end
